theory Spec2Isabelle
  imports Complex_Main
begin

section \<open>Geometry values and the geometry library\<close>

text \<open>
  The program (\<^verbatim>\<open>src/extraction/cubicasa.py\<close>) builds its model on top of the shapely
  geometry library. Geometry objects are modelled by their class and the coordinates they
  hold; \<open>'p\<close> is the type of a coordinate pair. A polygon holds the coordinate sequence of
  its exterior ring (what \<^verbatim>\<open>polygon.exterior.coords\<close> returns) and those of its holes.
  \<open>Point None\<close> is the empty point \<^verbatim>\<open>Point()\<close> and \<open>Polygon [] []\<close> the empty polygon
  \<^verbatim>\<open>Polygon()\<close>.
\<close>

datatype 'p geom =
    Point "'p option"
  | LineString "'p list"
  | Polygon "'p list" "'p list list"
  | MultiPoint "'p list"
  | MultiLineString "'p list list"
  | MultiPolygon "('p list \<times> 'p list list) list"
  | GeometryCollection "'p geom list"

text \<open>
  The operations of the library that the program calls are parameters of the model: the
  program is verified for every library. \<open>ring_coords\<close> is the coordinate sequence the
  library stores for the ring of \<^verbatim>\<open>Polygon(points)\<close>; \<open>split\<close> is \<^verbatim>\<open>shapely.ops.split\<close>,
  which may raise (\<open>None\<close>) and is the one call the program guards with \<^verbatim>\<open>try\<close>;
  \<open>relate\<close> is the DE-9IM matrix of two geometries. \<open>intersection\<close> and \<open>difference\<close>
  are the two methods on polygons. \<open>line_intersection\<close> and \<open>line_difference\<close> are the
  same methods on an edge and the multi-line of the other edges of a ring, as the handler
  of a failed \<open>split\<close> calls them: on such lines they may raise as well (\<open>None\<close>), and
  nothing in the program catches that.
\<close>

record 'p shapely =
  ring_coords :: "'p list \<Rightarrow> 'p list"
  is_valid :: "'p geom \<Rightarrow> bool"
  is_empty :: "'p geom \<Rightarrow> bool"
  area :: "'p geom \<Rightarrow> real"
  geom_length :: "'p geom \<Rightarrow> real"
  boundary :: "'p geom \<Rightarrow> 'p geom"
  distance :: "'p geom \<Rightarrow> 'p geom \<Rightarrow> real"
  equals :: "'p geom \<Rightarrow> 'p geom \<Rightarrow> bool"
  intersection :: "'p geom \<Rightarrow> 'p geom \<Rightarrow> 'p geom"
  difference :: "'p geom \<Rightarrow> 'p geom \<Rightarrow> 'p geom"
  relate :: "'p geom \<Rightarrow> 'p geom \<Rightarrow> string"
  split :: "'p geom \<Rightarrow> 'p geom \<Rightarrow> 'p geom list option"
  line_intersection :: "'p geom \<Rightarrow> 'p geom \<Rightarrow> 'p geom option"
  line_difference :: "'p geom \<Rightarrow> 'p geom \<Rightarrow> 'p geom option"
  polygonize :: "'p geom list \<Rightarrow> 'p geom list"
  minimum_rotated_rectangle :: "'p geom \<Rightarrow> 'p geom"

datatype error = IndexError | AttributeError | TypeError | LibraryError

text \<open>The parts of a multi-part geometry, in order; \<open>None\<close> for a single-part geometry,
  which is neither iterable nor subscriptable.\<close>

fun geoms :: "'p geom \<Rightarrow> 'p geom list option" where
  "geoms (MultiPoint ps) = Some (map (\<lambda>p. Point (Some p)) ps)"
| "geoms (MultiLineString ls) = Some (map LineString ls)"
| "geoms (MultiPolygon ps) = Some (map (\<lambda>(s, hs). Polygon s hs) ps)"
| "geoms (GeometryCollection gs) = Some gs"
| "geoms _ = None"

text \<open>\<^verbatim>\<open>g[i]\<close> for a non-negative index.\<close>

definition geom_index :: "'p geom \<Rightarrow> nat \<Rightarrow> error + 'p geom" where
  "geom_index g i =
     (case geoms g of
        None \<Rightarrow> Inl TypeError
      | Some gs \<Rightarrow> if i < length gs then Inr (gs ! i) else Inl IndexError)"

text \<open>\<^verbatim>\<open>polygon.exterior.coords\<close>: only a polygon has an exterior.\<close>

fun exterior_coords :: "'p geom \<Rightarrow> error + 'p list" where
  "exterior_coords (Polygon shell holes) = Inr shell"
| "exterior_coords _ = Inl AttributeError"

definition CLOSE_EDGE_TOLERANCE :: real where
  "CLOSE_EDGE_TOLERANCE = 1.0"

section \<open>Edge closeness\<close>

text \<open>The loop of \<^verbatim>\<open>lines_are_close\<close> over the four (edge, point) pairs, with the flag
  \<^verbatim>\<open>first_pair_found\<close>; falling off the end of the loop returns \<open>False\<close>.\<close>

fun close_pairs_loop :: "'p shapely \<Rightarrow> real \<Rightarrow> bool \<Rightarrow> ('p geom \<times> 'p geom) list \<Rightarrow> bool" where
  "close_pairs_loop L tolerance first_pair_found [] = False"
| "close_pairs_loop L tolerance first_pair_found ((edge, point) # pairs) =
     (if distance L edge point < tolerance
      then (if first_pair_found then True else close_pairs_loop L tolerance True pairs)
      else close_pairs_loop L tolerance first_pair_found pairs)"

definition lines_are_close :: "'p shapely \<Rightarrow> 'p geom \<Rightarrow> 'p geom \<Rightarrow> real \<Rightarrow> error + bool" where
  "lines_are_close L line1 line2 tolerance =
     (if geom_length L line1 > 0 \<and> geom_length L line2 > 0 then
        (case geom_index (boundary L line2) 0 of Inl e \<Rightarrow> Inl e | Inr p20 \<Rightarrow>
        (case geom_index (boundary L line2) 1 of Inl e \<Rightarrow> Inl e | Inr p21 \<Rightarrow>
        (case geom_index (boundary L line1) 0 of Inl e \<Rightarrow> Inl e | Inr p10 \<Rightarrow>
        (case geom_index (boundary L line1) 1 of Inl e \<Rightarrow> Inl e | Inr p11 \<Rightarrow>
           Inr (close_pairs_loop L tolerance False
                  [(line1, p20), (line1, p21), (line2, p10), (line2, p11)])))))
      else Inr False)"

text \<open>The end points of a line (the parts of its boundary), an edge (a line of positive
  length with two end points), and the number of (edge, end point of the other edge)
  distance checks of a pair of lines that fall below the tolerance.\<close>

definition endpoints :: "'p shapely \<Rightarrow> 'p geom \<Rightarrow> 'p geom list" where
  "endpoints L line = (case geoms (boundary L line) of Some ps \<Rightarrow> ps | None \<Rightarrow> [])"

definition is_edge :: "'p shapely \<Rightarrow> 'p geom \<Rightarrow> bool" where
  "is_edge L line = (geom_length L line > 0 \<and> length (endpoints L line) = 2)"

definition qualifying_checks :: "'p shapely \<Rightarrow> 'p geom \<Rightarrow> 'p geom \<Rightarrow> real \<Rightarrow> nat" where
  "qualifying_checks L line1 line2 tolerance =
     length (filter (\<lambda>p. distance L line1 p < tolerance) (endpoints L line2)) +
     length (filter (\<lambda>p. distance L line2 p < tolerance) (endpoints L line1))"

text \<open>\<^verbatim>\<open>polygon_edges\<close>: consecutive coordinates of the exterior ring, zipped.\<close>

definition polygon_edges :: "'p geom \<Rightarrow> error + 'p geom list" where
  "polygon_edges polygon =
     (case exterior_coords polygon of
        Inl e \<Rightarrow> Inl e
      | Inr coords \<Rightarrow> Inr (map (\<lambda>(a, b). LineString [a, b]) (zip (butlast coords) (tl coords))))"

text \<open>\<^verbatim>\<open>PlanObject._is_close\<close>, over the polygons of the two objects. The inner loop runs
  over \<^verbatim>\<open>other.edges()\<close>, evaluated once per edge of \<^verbatim>\<open>self\<close>.\<close>

fun is_close_inner :: "'p shapely \<Rightarrow> 'p geom \<Rightarrow> 'p geom list \<Rightarrow> error + bool" where
  "is_close_inner L self_edge [] = Inr False"
| "is_close_inner L self_edge (other_edge # rest) =
     (case lines_are_close L self_edge other_edge CLOSE_EDGE_TOLERANCE of
        Inl e \<Rightarrow> Inl e
      | Inr found \<Rightarrow> if found then Inr True else is_close_inner L self_edge rest)"

fun is_close_outer :: "'p shapely \<Rightarrow> 'p geom \<Rightarrow> 'p geom list \<Rightarrow> error + bool" where
  "is_close_outer L other_polygon [] = Inr False"
| "is_close_outer L other_polygon (self_edge # rest) =
     (case polygon_edges other_polygon of
        Inl e \<Rightarrow> Inl e
      | Inr other_edges \<Rightarrow>
          (case is_close_inner L self_edge other_edges of
             Inl e \<Rightarrow> Inl e
           | Inr found \<Rightarrow> if found then Inr True else is_close_outer L other_polygon rest))"

definition is_close :: "'p shapely \<Rightarrow> 'p geom \<Rightarrow> 'p geom \<Rightarrow> error + bool" where
  "is_close L self_polygon other_polygon =
     (if distance L self_polygon other_polygon \<le> CLOSE_EDGE_TOLERANCE then
        (case polygon_edges self_polygon of
           Inl e \<Rightarrow> Inl e
         | Inr self_edges \<Rightarrow> is_close_outer L other_polygon self_edges)
      else Inr False)"

section \<open>Shape reconstruction\<close>

fun largest_loop :: "'p shapely \<Rightarrow> 'p geom \<Rightarrow> 'p geom list \<Rightarrow> 'p geom" where
  "largest_loop L largest [] = largest"
| "largest_loop L largest (p # ps) =
     largest_loop L (if area L p > area L largest then p else largest) ps"

definition largest_polygon :: "'p shapely \<Rightarrow> 'p geom list \<Rightarrow> error + 'p geom" where
  "largest_polygon L polygons =
     (case polygons of
        [] \<Rightarrow> Inl IndexError
      | p # ps \<Rightarrow> Inr (largest_loop L p ps))"

text \<open>\<^verbatim>\<open>list.extend\<close> succeeds on a multi-part geometry, which iterates over its parts;
  on a single geometry it raises and the bare \<^verbatim>\<open>except\<close> appends the geometry.\<close>

definition extend_or_append :: "'p geom list \<Rightarrow> 'p geom \<Rightarrow> 'p geom list" where
  "extend_or_append list iterable_or_not =
     (case geoms iterable_or_not of
        Some parts \<Rightarrow> list @ parts
      | None \<Rightarrow> list @ [iterable_or_not])"

fun is_LineString :: "'p geom \<Rightarrow> bool" where
  "is_LineString (LineString cs) = True"
| "is_LineString _ = False"

text \<open>\<^verbatim>\<open>MultiLineString(lines)\<close> for a list of line strings.\<close>

fun line_coords :: "'p geom \<Rightarrow> 'p list option" where
  "line_coords (LineString cs) = Some cs"
| "line_coords _ = None"

definition multi_line_string :: "'p geom list \<Rightarrow> 'p geom" where
  "multi_line_string lines = MultiLineString (List.map_filter line_coords lines)"

text \<open>The body of the loop of \<^verbatim>\<open>split_at_intersections\<close> for one edge: the segments
  that are added to \<^verbatim>\<open>split_edges\<close>. \<^verbatim>\<open>e != this_edge\<close> compares class and coordinates.
  When \<open>split\<close> raises, the handler calls the intersection and then the difference; an
  exception of either leaves the function.\<close>

definition split_edge :: "'p shapely \<Rightarrow> 'p geom list \<Rightarrow> 'p geom \<Rightarrow> error + 'p geom list" where
  "split_edge L edges this_edge =
     (let other_edges = multi_line_string (filter (\<lambda>e. e \<noteq> this_edge) edges) in
      case split L this_edge other_edges of
        Some result \<Rightarrow> Inr result
      | None \<Rightarrow>
          (case line_intersection L this_edge other_edges of
             None \<Rightarrow> Inl LibraryError
           | Some common \<Rightarrow>
          (case line_difference L this_edge other_edges of
             None \<Rightarrow> Inl LibraryError
           | Some remainder \<Rightarrow>
               (let segments = extend_or_append [] common;
                    segments = extend_or_append segments remainder
                in Inr (filter (\<lambda>s. is_LineString s \<and> \<not> is_empty L s) segments)))))"

text \<open>The loop of \<^verbatim>\<open>split_at_intersections\<close> over the edges, with the list
  \<^verbatim>\<open>split_edges\<close> built so far.\<close>

fun split_loop ::
  "'p shapely \<Rightarrow> 'p geom list \<Rightarrow> 'p geom list \<Rightarrow> 'p geom list \<Rightarrow> error + 'p geom list" where
  "split_loop L edges split_edges [] = Inr split_edges"
| "split_loop L edges split_edges (this_edge # rest) =
     (case split_edge L edges this_edge of
        Inl e \<Rightarrow> Inl e
      | Inr result \<Rightarrow> split_loop L edges (split_edges @ result) rest)"

definition split_at_intersections :: "'p shapely \<Rightarrow> 'p geom list \<Rightarrow> error + 'p geom list" where
  "split_at_intersections L edges = split_loop L edges [] edges"

fun remove_duplicates_loop :: "'p shapely \<Rightarrow> 'p geom list \<Rightarrow> 'p geom list \<Rightarrow> 'p geom list" where
  "remove_duplicates_loop L deduplicated [] = deduplicated"
| "remove_duplicates_loop L deduplicated (this # rest) =
     remove_duplicates_loop L
       (if list_ex (\<lambda>that. equals L this that) deduplicated then deduplicated
        else deduplicated @ [this]) rest"

definition remove_duplicates :: "'p shapely \<Rightarrow> 'p geom list \<Rightarrow> 'p geom list" where
  "remove_duplicates L geometry_list = remove_duplicates_loop L [] geometry_list"

text \<open>Lines 195 to 198 of the source: the polygons rebuilt from the ring of an invalid
  polygon.\<close>

definition repaired_polygons :: "'p shapely \<Rightarrow> 'p geom \<Rightarrow> error + 'p geom list" where
  "repaired_polygons L polygon =
     (case polygon_edges polygon of
        Inl e \<Rightarrow> Inl e
      | Inr raw_edges \<Rightarrow>
          (case split_at_intersections L raw_edges of
             Inl e \<Rightarrow> Inl e
           | Inr split_edges \<Rightarrow>
               (let deduplicated_edges = remove_duplicates L split_edges
                in Inr (polygonize L deduplicated_edges))))"

definition polygon_from_points :: "'p shapely \<Rightarrow> 'p list \<Rightarrow> error + 'p geom" where
  "polygon_from_points L points =
     (let num_points = length points in
      if num_points = 0 then Inr (Point None)
      else if num_points = 1 then Inr (Point (Some (points ! 0)))
      else if num_points = 2 then Inr (LineString points)
      else
        (let polygon = Polygon (ring_coords L points) [] in
         if is_valid L polygon then Inr polygon
         else
           (case repaired_polygons L polygon of
              Inl e \<Rightarrow> Inl e
            | Inr polygons \<Rightarrow>
                if length polygons > 0 then largest_polygon L polygons
                else Inr (Polygon [] []))))"






section \<open>Dividers\<close>

text \<open>
  In class \<^verbatim>\<open>Divider\<close> the name \<^verbatim>\<open>edges\<close> is the method \<^verbatim>\<open>PlanObject.edges\<close>, which is not
  a property: the expression \<^verbatim>\<open>self.edges\<close> is a bound method, not the list that calling
  it would return. A bound method has no length and cannot be subscripted.
\<close>

datatype 'p pyvalue = BoundMethod "error + 'p geom list" | ListValue "'p geom list"

fun py_len :: "'p pyvalue \<Rightarrow> error + nat" where
  "py_len (ListValue xs) = Inr (length xs)"
| "py_len (BoundMethod call) = Inl TypeError"

fun py_getitem :: "'p pyvalue \<Rightarrow> nat \<Rightarrow> error + 'p geom" where
  "py_getitem (ListValue xs) i = (if i < length xs then Inr (xs ! i) else Inl IndexError)"
| "py_getitem (BoundMethod call) i = Inl TypeError"

text \<open>\<^verbatim>\<open>self.edges\<close> of an object with the given polygon.\<close>

definition edges_attribute :: "'p geom \<Rightarrow> 'p pyvalue" where
  "edges_attribute polygon = BoundMethod (polygon_edges polygon)"

definition eligible_edges :: "'p geom \<Rightarrow> error + 'p geom list" where
  "eligible_edges polygon =
     (case py_len (edges_attribute polygon) of
        Inl e \<Rightarrow> Inl e
      | Inr n \<Rightarrow>
          if n = 4 then
            (case py_getitem (edges_attribute polygon) 0 of Inl e \<Rightarrow> Inl e | Inr e0 \<Rightarrow>
            (case py_getitem (edges_attribute polygon) 2 of Inl e \<Rightarrow> Inl e | Inr e2 \<Rightarrow>
               Inr [e0, e2]))
          else Inr [])"

section \<open>Topological relation patterns\<close>

text \<open>
  \<^verbatim>\<open>a.relate_pattern(b, pattern)\<close> matches the DE-9IM matrix of the two geometries, nine
  characters among \<open>F\<close>, \<open>0\<close>, \<open>1\<close>, \<open>2\<close>, against a pattern of nine characters:
  \<open>*\<close> matches anything, \<open>T\<close> any dimension (\<open>0\<close>, \<open>1\<close>, \<open>2\<close>), and \<open>F\<close>, \<open>0\<close>, \<open>1\<close>,
  \<open>2\<close> themselves. The positions are interior/interior, interior/boundary,
  interior/exterior, boundary/interior and so on.
\<close>

definition pattern_char_matches :: "char \<Rightarrow> char \<Rightarrow> bool" where
  "pattern_char_matches m c =
     (if c = CHR ''*'' then True
      else if c = CHR ''T'' then m = CHR ''0'' \<or> m = CHR ''1'' \<or> m = CHR ''2''
      else m = c)"

definition relate_pattern :: "'p shapely \<Rightarrow> 'p geom \<Rightarrow> 'p geom \<Rightarrow> string \<Rightarrow> bool" where
  "relate_pattern L a b pattern = list_all2 pattern_char_matches (relate L a b) pattern"

section \<open>Fixture containment\<close>

text \<open>The room set of every fixture and the fixture set of every room, by index.\<close>

record containment =
  fixture_rooms :: "nat \<Rightarrow> nat set"
  room_fixtures :: "nat \<Rightarrow> nat set"

definition no_containment :: containment where
  "no_containment = \<lparr>fixture_rooms = (\<lambda>f. {}), room_fixtures = (\<lambda>r. {})\<rparr>"

definition add_room :: "containment \<Rightarrow> nat \<Rightarrow> nat \<Rightarrow> containment" where
  "add_room s fixture room =
     s\<lparr>fixture_rooms := (fixture_rooms s)(fixture := insert room (fixture_rooms s fixture)),
       room_fixtures := (room_fixtures s)(room := insert fixture (room_fixtures s room))\<rparr>"

text \<open>\<^verbatim>\<open>Fixture.find_rooms\<close> for the fixture of index \<open>fixture\<close> and polygon
  \<open>fixture_polygon\<close>, over the rooms (index and polygon) in floor order.\<close>

fun find_rooms ::
  "'p shapely \<Rightarrow> 'p geom \<Rightarrow> nat \<Rightarrow> containment \<Rightarrow> (nat \<times> 'p geom) list \<Rightarrow> containment" where
  "find_rooms L fixture_polygon fixture s [] = s"
| "find_rooms L fixture_polygon fixture s ((room, room_polygon) # rooms) =
     (if relate_pattern L fixture_polygon room_polygon ''2********''
      then add_room s fixture room
      else find_rooms L fixture_polygon fixture s rooms)"

text \<open>The relation as the specification words it: the first two positions of the matrix
  both indicate an intersection (interior/interior and interior/boundary).\<close>

definition spec_fixture_relation :: "string \<Rightarrow> bool" where
  "spec_fixture_relation m = list_all2 pattern_char_matches m ''TT*******''"

section \<open>Cached polygons\<close>

text \<open>
  A plan object holds the points of its polygon element and the slot of the
  \<^verbatim>\<open>cached_property\<close> \<^verbatim>\<open>polygon\<close>, empty until the first read that succeeds. A wall has
  the cell \<^verbatim>\<open>_polygon\<close> as well.
\<close>

record 'p plan_object =
  element_points :: "'p list"
  polygon_cache :: "'p geom option"

record 'p wall = "'p plan_object" +
  priv_polygon :: "'p geom option"

text \<open>\<^verbatim>\<open>functools.cached_property\<close>: a read returns the value in the slot when there is
  one; otherwise it runs the computation and stores the value it returns, and stores
  nothing when the computation raises. \<open>PlanObject.polygon\<close> is such a property, over
  \<^verbatim>\<open>polygon_from_points\<close> of the points of the element.\<close>

definition cached_property :: "(error + 'v) \<Rightarrow> 'v option \<Rightarrow> (error + 'v) \<times> 'v option" where
  "cached_property compute slot =
     (case slot of
        Some v \<Rightarrow> (Inr v, slot)
      | None \<Rightarrow>
          (case compute of
             Inl e \<Rightarrow> (Inl e, None)
           | Inr v \<Rightarrow> (Inr v, Some v)))"

definition PlanObject_polygon ::
  "'p shapely \<Rightarrow> ('p, 'a) plan_object_scheme \<Rightarrow> (error + 'p geom) \<times> ('p, 'a) plan_object_scheme" where
  "PlanObject_polygon L obj =
     (case cached_property (polygon_from_points L (element_points obj)) (polygon_cache obj) of
        (r, slot) \<Rightarrow> (r, obj\<lparr>polygon_cache := slot\<rparr>))"

text \<open>\<^verbatim>\<open>Wall.polygon\<close>: the cell \<^verbatim>\<open>_polygon\<close>, filled from the inherited property when it
  holds \<^verbatim>\<open>None\<close>.\<close>

definition Wall_polygon :: "'p shapely \<Rightarrow> 'p wall \<Rightarrow> (error + 'p geom) \<times> 'p wall" where
  "Wall_polygon L w =
     (case priv_polygon w of
        None \<Rightarrow>
          (case PlanObject_polygon L w of
             (Inl e, w') \<Rightarrow> (Inl e, w')
           | (Inr g, w') \<Rightarrow> (Inr g, w'\<lparr>priv_polygon := Some g\<rparr>))
      | Some g \<Rightarrow> (Inr g, w))"

section \<open>Overlap resolution\<close>

definition minimum_rotated_rectangle_dimension :: "'p shapely \<Rightarrow> 'p geom \<Rightarrow> error + real" where
  "minimum_rotated_rectangle_dimension L polygon =
     (let rect = minimum_rotated_rectangle L polygon in
      case exterior_coords rect of
        Inl e \<Rightarrow> Inl e
      | Inr coords \<Rightarrow>
          (let pts = map (\<lambda>c. Point (Some c)) (take 3 coords) in
           if length pts < 3 then Inl IndexError
           else
             (let d1 = distance L (pts ! 0) (pts ! 1);
                  d2 = distance L (pts ! 1) (pts ! 2)
              in Inr (min d1 d2))))"

text \<open>\<^verbatim>\<open>subtract_cleanly\<close>; the result \<open>None\<close> is Python's \<^verbatim>\<open>None\<close>, returned by falling off
  the end. For the two sizes, \<^verbatim>\<open>sizes.index(min_size)\<close> is 0 when the first is the
  minimum and 1 otherwise.\<close>

definition subtract_cleanly ::
  "'p shapely \<Rightarrow> 'p geom \<Rightarrow> 'p geom \<Rightarrow> real \<Rightarrow> error + 'p geom option" where
  "subtract_cleanly L this_polygon that_polygon tolerance =
     (let diff = difference L this_polygon that_polygon in
      case diff of
        Polygon shell holes \<Rightarrow> Inr (Some diff)
      | MultiPolygon parts \<Rightarrow>
          (case geoms diff of
             Some [q0, q1] \<Rightarrow>
               (case minimum_rotated_rectangle_dimension L q0 of Inl e \<Rightarrow> Inl e | Inr s0 \<Rightarrow>
               (case minimum_rotated_rectangle_dimension L q1 of Inl e \<Rightarrow> Inl e | Inr s1 \<Rightarrow>
                  (let min_size = min s0 s1 in
                   if min_size < tolerance then
                     (let i = (if s0 = min_size then 0 else 1 :: nat)
                      in Inr (Some ([q0, q1] ! (1 - i))))
                   else Inr None)))
           | _ \<Rightarrow> Inr None)
      | _ \<Rightarrow> Inr None)"

text \<open>
  \<^verbatim>\<open>Wall.remove_overlaps\<close> on the walls of indices \<open>self\<close> and \<open>other_wall\<close> of the wall
  list. The result is \<open>Some True\<close>, \<open>Some False\<close> or \<open>None\<close> (no overlap: the method falls
  off its end). The two polygons are read once here; the source reads each property
  again for every use, which returns the same geometry since a read fills the cell.
\<close>

definition read_wall :: "'p shapely \<Rightarrow> 'p wall list \<Rightarrow> nat \<Rightarrow> (error + 'p geom) \<times> 'p wall list" where
  "read_wall L ws i = (case Wall_polygon L (ws ! i) of (r, w') \<Rightarrow> (r, ws[i := w']))"

definition set_priv_polygon :: "'p wall list \<Rightarrow> nat \<Rightarrow> 'p geom option \<Rightarrow> 'p wall list" where
  "set_priv_polygon ws i v = ws[i := (ws ! i)\<lparr>priv_polygon := v\<rparr>]"

definition remove_overlaps ::
  "'p shapely \<Rightarrow> bool \<Rightarrow> 'p wall list \<Rightarrow> nat \<Rightarrow> nat \<Rightarrow> error + (bool option \<times> 'p wall list)" where
  "remove_overlaps L clean_overlaps_only ws self other_wall =
     (case read_wall L ws self of
        (Inl e, ws1) \<Rightarrow> Inl e
      | (Inr self_polygon, ws1) \<Rightarrow>
     (case read_wall L ws1 other_wall of
        (Inl e, ws2) \<Rightarrow> Inl e
      | (Inr other_polygon, ws2) \<Rightarrow>
          if relate_pattern L self_polygon other_polygon ''2121T1212'' then
            (case subtract_cleanly L self_polygon other_polygon CLOSE_EDGE_TOLERANCE of
               Inl e \<Rightarrow> Inl e
             | Inr (Some self_difference) \<Rightarrow>
                 Inr (Some True, set_priv_polygon ws2 self (Some self_difference))
             | Inr None \<Rightarrow>
            (case subtract_cleanly L other_polygon self_polygon CLOSE_EDGE_TOLERANCE of
               Inl e \<Rightarrow> Inl e
             | Inr (Some other_difference) \<Rightarrow>
                 Inr (Some True, set_priv_polygon ws2 other_wall (Some other_difference))
             | Inr None \<Rightarrow>
                 if clean_overlaps_only then Inr (Some False, ws2)
                 else Inr (Some True, set_priv_polygon ws2 other_wall None)))
          else Inr (None, ws2)))"

text \<open>\<^verbatim>\<open>itertools.combinations(xs, 2)\<close>.\<close>

fun combinations2 :: "'a list \<Rightarrow> ('a \<times> 'a) list" where
  "combinations2 [] = []"
| "combinations2 (x # xs) = map (Pair x) xs @ combinations2 xs"

text \<open>One round of the \<^verbatim>\<open>while\<close> loop of \<^verbatim>\<open>Floor.remove_wall_overlaps\<close>: the \<^verbatim>\<open>for\<close> loop
  over \<^verbatim>\<open>pairs\<close>, which appends to \<^verbatim>\<open>pairs_to_retry\<close> the pairs whose call returned
  \<open>False\<close>.\<close>

fun resolution_round ::
  "'p shapely \<Rightarrow> 'p wall list \<Rightarrow> (nat \<times> nat) list \<Rightarrow> (nat \<times> nat) list \<Rightarrow>
   error + ('p wall list \<times> (nat \<times> nat) list)" where
  "resolution_round L ws pairs_to_retry [] = Inr (ws, pairs_to_retry)"
| "resolution_round L ws pairs_to_retry ((this_wall, that_wall) # pairs) =
     (case remove_overlaps L True ws this_wall that_wall of
        Inl e \<Rightarrow> Inl e
      | Inr (r, ws') \<Rightarrow>
          resolution_round L ws'
            (if r = Some False then pairs_to_retry @ [(this_wall, that_wall)] else pairs_to_retry)
            pairs)"

text \<open>The final \<^verbatim>\<open>for\<close> loop, with \<^verbatim>\<open>clean_overlaps_only=False\<close>.\<close>

fun forced_resolution ::
  "'p shapely \<Rightarrow> 'p wall list \<Rightarrow> (nat \<times> nat) list \<Rightarrow> error + 'p wall list" where
  "forced_resolution L ws [] = Inr ws"
| "forced_resolution L ws ((this_wall, that_wall) # pairs) =
     (case remove_overlaps L False ws this_wall that_wall of
        Inl e \<Rightarrow> Inl e
      | Inr (r, ws') \<Rightarrow> forced_resolution L ws' pairs)"

text \<open>The \<^verbatim>\<open>while True\<close> loop, with fuel: one unit per round, \<open>None\<close> when the fuel runs
  out before the loop is left.\<close>

fun overlaps_loop ::
  "nat \<Rightarrow> 'p shapely \<Rightarrow> 'p wall list \<Rightarrow> (nat \<times> nat) list \<Rightarrow> (error + 'p wall list) option" where
  "overlaps_loop 0 L ws pairs = None"
| "overlaps_loop (Suc fuel) L ws pairs =
     (case resolution_round L ws [] pairs of
        Inl e \<Rightarrow> Some (Inl e)
      | Inr (ws', pairs_to_retry) \<Rightarrow>
          if length pairs_to_retry = 0 then Some (Inr ws')
          else if length pairs_to_retry = length pairs
          then Some (forced_resolution L ws' pairs_to_retry)
          else overlaps_loop fuel L ws' pairs_to_retry)"

definition remove_wall_overlaps ::
  "nat \<Rightarrow> 'p shapely \<Rightarrow> 'p wall list \<Rightarrow> (error + 'p wall list) option" where
  "remove_wall_overlaps fuel L walls =
     overlaps_loop fuel L walls (combinations2 [0..<length walls])"

section \<open>The adjacency pass\<close>

text \<open>
  The objects that take part in the adjacency pass, by class and index in the floor's
  list, and the state the pass writes: the adjacency table of every object (a dictionary
  from neighbour to the list of facts, a fact being the shared geometry or \<^verbatim>\<open>None\<close> for
  "close"), the room list of every wall opening (wall index, opening index), and the door
  and window sets of every room.
\<close>

datatype ref = RoomRef nat | WallRef nat | RailingRef nat

datatype opening_kind = Door | Window

record 'p adjacency_state =
  adjacencies :: "ref \<Rightarrow> (ref \<rightharpoonup> 'p geom option list)"
  opening_rooms :: "nat \<times> nat \<Rightarrow> nat list"
  room_doors :: "nat \<Rightarrow> (nat \<times> nat) set"
  room_windows :: "nat \<Rightarrow> (nat \<times> nat) set"

definition initial_state :: "'p adjacency_state" where
  "initial_state =
     \<lparr>adjacencies = (\<lambda>obj. Map.empty), opening_rooms = (\<lambda>d. []),
      room_doors = (\<lambda>r. {}), room_windows = (\<lambda>r. {})\<rparr>"

text \<open>
  No polygon is written during the pass, so every read of a polygon property returns the
  same geometry throughout: the pass is modelled over these geometries. Each wall comes
  with its openings, in order, each with its class and polygon.
\<close>

record 'p floor_plan =
  room_polygons :: "'p geom list"
  wall_polygons :: "'p geom list"
  railing_polygons :: "'p geom list"
  wall_openings :: "(opening_kind \<times> 'p geom) list list"

fun polygon_of :: "'p floor_plan \<Rightarrow> ref \<Rightarrow> 'p geom" where
  "polygon_of fp (RoomRef i) = room_polygons fp ! i"
| "polygon_of fp (WallRef i) = wall_polygons fp ! i"
| "polygon_of fp (RailingRef i) = railing_polygons fp ! i"

text \<open>\<^verbatim>\<open>AdjacencyList.add\<close>.\<close>

definition AdjacencyList_add ::
  "(ref \<rightharpoonup> 'p geom option list) \<Rightarrow> ref \<Rightarrow> 'p geom option \<Rightarrow> (ref \<rightharpoonup> 'p geom option list)" where
  "AdjacencyList_add table object info =
     table(object \<mapsto> (case table object of None \<Rightarrow> [] | Some infos \<Rightarrow> infos) @ [info])"

text \<open>\<^verbatim>\<open>PlanObject.add_adjacency\<close>.\<close>

definition PlanObject_add_adjacency ::
  "'p adjacency_state \<Rightarrow> ref \<Rightarrow> ref \<Rightarrow> 'p geom option \<Rightarrow> 'p adjacency_state" where
  "PlanObject_add_adjacency s self object info =
     s\<lparr>adjacencies := (adjacencies s)(self := AdjacencyList_add (adjacencies s self) object info)\<rparr>"

text \<open>\<^verbatim>\<open>Door.add_adjacency\<close> and \<^verbatim>\<open>Window.add_adjacency\<close>, for the opening \<open>d\<close>.\<close>

definition opening_add_adjacency ::
  "'p adjacency_state \<Rightarrow> opening_kind \<Rightarrow> nat \<times> nat \<Rightarrow> nat \<Rightarrow> 'p adjacency_state" where
  "opening_add_adjacency s kind d room =
     (let s' = s\<lparr>opening_rooms := (opening_rooms s)(d := opening_rooms s d @ [room])\<rparr> in
      case kind of
        Door \<Rightarrow> s'\<lparr>room_doors := (room_doors s')(room := insert d (room_doors s' room))\<rparr>
      | Window \<Rightarrow> s'\<lparr>room_windows := (room_windows s')(room := insert d (room_windows s' room))\<rparr>)"

text \<open>\<^verbatim>\<open>WallOpening.check_adjacencies\<close>.\<close>

definition check_adjacencies ::
  "'p shapely \<Rightarrow> 'p floor_plan \<Rightarrow> 'p adjacency_state \<Rightarrow> opening_kind \<times> 'p geom \<Rightarrow> nat \<times> nat \<Rightarrow>
   nat \<Rightarrow> 'p adjacency_state" where
  "check_adjacencies L fp s opening d room =
     (if distance L (snd opening) (room_polygons fp ! room) < CLOSE_EDGE_TOLERANCE
      then opening_add_adjacency s (fst opening) d room
      else s)"

text \<open>The loop of \<^verbatim>\<open>Wall.add_adjacency\<close> over the openings of wall \<open>w\<close>, from the opening
  of index \<open>k\<close> on.\<close>

fun openings_loop ::
  "'p shapely \<Rightarrow> 'p floor_plan \<Rightarrow> 'p adjacency_state \<Rightarrow> nat \<Rightarrow> nat \<Rightarrow> nat \<Rightarrow>
   (opening_kind \<times> 'p geom) list \<Rightarrow> 'p adjacency_state" where
  "openings_loop L fp s w room k [] = s"
| "openings_loop L fp s w room k (opening # openings) =
     openings_loop L fp (check_adjacencies L fp s opening (w, k) room) w room (Suc k) openings"

text \<open>\<^verbatim>\<open>add_adjacency\<close> as the class of \<open>self\<close> defines it: \<^verbatim>\<open>Wall.add_adjacency\<close> for a wall,
  \<^verbatim>\<open>PlanObject.add_adjacency\<close> for a room or a railing.\<close>

fun add_adjacency ::
  "'p shapely \<Rightarrow> 'p floor_plan \<Rightarrow> 'p adjacency_state \<Rightarrow> ref \<Rightarrow> ref \<Rightarrow> 'p geom option \<Rightarrow>
   'p adjacency_state" where
  "add_adjacency L fp s (WallRef w) (RoomRef r) info =
     openings_loop L fp (PlanObject_add_adjacency s (WallRef w) (RoomRef r) info) w r 0
       (wall_openings fp ! w)"
| "add_adjacency L fp s self object info = PlanObject_add_adjacency s self object info"

fun is_MultiLineString :: "'p geom \<Rightarrow> bool" where
  "is_MultiLineString (MultiLineString ls) = True"
| "is_MultiLineString _ = False"

text \<open>\<^verbatim>\<open>PlanObject.find_adjacencies\<close>.\<close>

fun find_adjacencies ::
  "'p shapely \<Rightarrow> 'p floor_plan \<Rightarrow> 'p adjacency_state \<Rightarrow> ref \<Rightarrow> ref list \<Rightarrow>
   error + 'p adjacency_state" where
  "find_adjacencies L fp s self [] = Inr s"
| "find_adjacencies L fp s self (other # other_objects) =
     (let inter = intersection L (polygon_of fp self) (polygon_of fp other) in
      if is_LineString inter \<or> is_MultiLineString inter then
        find_adjacencies L fp
          (add_adjacency L fp (add_adjacency L fp s self other (Some inter)) other self (Some inter))
          self other_objects
      else
        (case is_close L (polygon_of fp self) (polygon_of fp other) of
           Inl e \<Rightarrow> Inl e
         | Inr close \<Rightarrow>
             if close then
               find_adjacencies L fp
                 (add_adjacency L fp (add_adjacency L fp s self other None) other self None)
                 self other_objects
             else find_adjacencies L fp s self other_objects))"

text \<open>The loop of \<^verbatim>\<open>Floor.find_adjacencies\<close> over the rooms, after the wall overlaps have
  been removed: each room against all walls, all railings and the rooms after it.\<close>

fun rooms_loop ::
  "'p shapely \<Rightarrow> 'p floor_plan \<Rightarrow> 'p adjacency_state \<Rightarrow> nat list \<Rightarrow> error + 'p adjacency_state" where
  "rooms_loop L fp s [] = Inr s"
| "rooms_loop L fp s (room_index # rest) =
     (case find_adjacencies L fp s (RoomRef room_index)
             (map WallRef [0..<length (wall_polygons fp)]) of
        Inl e \<Rightarrow> Inl e
      | Inr s1 \<Rightarrow>
     (case find_adjacencies L fp s1 (RoomRef room_index)
             (map RailingRef [0..<length (railing_polygons fp)]) of
        Inl e \<Rightarrow> Inl e
      | Inr s2 \<Rightarrow>
     (case find_adjacencies L fp s2 (RoomRef room_index)
             (map RoomRef [room_index + 1..<length (room_polygons fp)]) of
        Inl e \<Rightarrow> Inl e
      | Inr s3 \<Rightarrow> rooms_loop L fp s3 rest)))"

definition adjacency_pass :: "'p shapely \<Rightarrow> 'p floor_plan \<Rightarrow> error + 'p adjacency_state" where
  "adjacency_pass L fp = rooms_loop L fp initial_state [0..<length (room_polygons fp)]"

text \<open>Whether the pass records an adjacency between a room and a wall: the test of the
  two branches of \<^verbatim>\<open>find_adjacencies\<close>.\<close>

definition records_adjacency :: "'p shapely \<Rightarrow> 'p geom \<Rightarrow> 'p geom \<Rightarrow> bool" where
  "records_adjacency L a b =
     (let inter = intersection L a b in
      is_LineString inter \<or> is_MultiLineString inter \<or> is_close L a b = Inr True)"

section \<open>Invariants of the adjacency pass\<close>

text \<open>The adjacency tables are symmetric: the facts that \<open>A\<close> holds for \<open>B\<close> are the facts
  that \<open>B\<close> holds for \<open>A\<close>.\<close>

definition symmetric :: "'p adjacency_state \<Rightarrow> bool" where
  "symmetric s = (\<forall>A B. adjacencies s A B = adjacencies s B A)"

text \<open>The opening \<open>d\<close> (wall index, opening index) exists and its polygon is nearer to
  the room than the tolerance: the test of \<open>check_adjacencies\<close>. And the reciprocal link:
  every room in the list of a door has the door in its set.\<close>

definition opening_hit :: "'p shapely \<Rightarrow> 'p floor_plan \<Rightarrow> nat \<times> nat \<Rightarrow> nat \<Rightarrow> bool" where
  "opening_hit L fp d room =
     (snd d < length (wall_openings fp ! fst d) \<and>
      distance L (snd (wall_openings fp ! fst d ! snd d)) (room_polygons fp ! room)
        < CLOSE_EDGE_TOLERANCE)"

definition doors_linked :: "'p floor_plan \<Rightarrow> 'p adjacency_state \<Rightarrow> bool" where
  "doors_linked fp s =
     (\<forall>w k r. k < length (wall_openings fp ! w) \<longrightarrow> fst (wall_openings fp ! w ! k) = Door \<longrightarrow>
        r \<in> set (opening_rooms s (w, k)) \<longrightarrow> (w, k) \<in> room_doors s r)"

section \<open>Example libraries and floors\<close>

text \<open>Concrete libraries over integer coordinates, on which the theorems below are run.
  The plain library answers every query with a constant; the others change single
  operations.\<close>

definition plain_library :: "(int \<times> int) shapely" where
  "plain_library =
     \<lparr>ring_coords = (\<lambda>ps. if ps \<noteq> [] \<and> hd ps \<noteq> last ps then ps @ [hd ps] else ps),
      is_valid = (\<lambda>g. True),
      is_empty = (\<lambda>g. False),
      area = (\<lambda>g. 0),
      geom_length = (\<lambda>g. 1),
      boundary = (\<lambda>g. case g of LineString cs \<Rightarrow> MultiPoint [hd cs, last cs]
                            | _ \<Rightarrow> GeometryCollection []),
      distance = (\<lambda>a b. 0),
      equals = (\<lambda>a b. a = b),
      intersection = (\<lambda>a b. GeometryCollection []),
      difference = (\<lambda>a b. a),
      relate = (\<lambda>a b. ''FF2FF1212''),
      split = (\<lambda>a b. Some [a]),
      line_intersection = (\<lambda>a b. Some (GeometryCollection [])),
      line_difference = (\<lambda>a b. Some a),
      polygonize = (\<lambda>es. []),
      minimum_rotated_rectangle = (\<lambda>g. g)\<rparr>"

definition near_touch_library :: "(int \<times> int) shapely" where
  "near_touch_library =
     plain_library\<lparr>distance :=
       (\<lambda>a b. case b of Point (Some (x, y)) \<Rightarrow> (if x = 0 then 0 else 5) | _ \<Rightarrow> 0)\<rparr>"





text \<open>A fixture strictly inside a room: the interiors meet in dimension 2, and the
  interior of the fixture does not meet the boundary of the room.\<close>

definition inside_library :: "(int \<times> int) shapely" where
  "inside_library = plain_library\<lparr>relate := (\<lambda>a b. ''2FF1FF212'')\<rparr>"

text \<open>
  Three walls: wall 0 is the vertical rectangle from (4,-5) to (6,15); wall 1 the
  horizontal rectangle from (0,4) to (12,6), which crosses wall 0; wall 2 the vertical
  rectangle from (10,0) to (12,10), which covers the right end of wall 1. Wall 1 minus
  wall 2 is the rectangle from (0,4) to (10,6); the differences of two crossing walls are
  two pieces, each 2 wide at least, so neither is a sliver. The library answers
  \<open>relate\<close> and \<open>difference\<close> for these rectangles; the minimum rotated rectangle of
  a rectangle is itself, and the distance of two corners on one side is the sum of the
  coordinate differences.
\<close>

definition rect_ring :: "int \<Rightarrow> int \<Rightarrow> int \<Rightarrow> int \<Rightarrow> (int \<times> int) list" where
  "rect_ring x0 y0 x1 y1 = [(x0, y0), (x1, y0), (x1, y1), (x0, y1), (x0, y0)]"

definition rect :: "int \<Rightarrow> int \<Rightarrow> int \<Rightarrow> int \<Rightarrow> (int \<times> int) geom" where
  "rect x0 y0 x1 y1 = Polygon (rect_ring x0 y0 x1 y1) []"

definition new_wall :: "'p list \<Rightarrow> 'p wall" where
  "new_wall pts = \<lparr>element_points = pts, polygon_cache = None, priv_polygon = None\<rparr>"

definition crossing_walls :: "(int \<times> int) wall list" where
  "crossing_walls =
     [new_wall [(4, -5), (6, -5), (6, 15), (4, 15)],
      new_wall [(0, 4), (12, 4), (12, 6), (0, 6)],
      new_wall [(10, 0), (12, 0), (12, 10), (10, 10)]]"

definition crossing_library :: "(int \<times> int) shapely" where
  "crossing_library =
     plain_library\<lparr>
       relate := (\<lambda>a b.
         if a = rect 4 (-5) 6 15 \<and> (b = rect 0 4 12 6 \<or> b = rect 0 4 10 6) then ''212101212''
         else if a = rect 0 4 12 6 \<and> b = rect 10 0 12 10 then ''212111212''
         else if a = rect 10 0 12 10 \<and> b = rect 0 4 12 6 then ''212111212''
         else ''FF2FF1212''),
       difference := (\<lambda>a b.
         if a = rect 4 (-5) 6 15 \<and> (b = rect 0 4 12 6 \<or> b = rect 0 4 10 6)
         then MultiPolygon [(rect_ring 4 (-5) 6 4, []), (rect_ring 4 6 6 15, [])]
         else if a = rect 0 4 12 6 \<and> b = rect 4 (-5) 6 15
         then MultiPolygon [(rect_ring 0 4 4 6, []), (rect_ring 6 4 12 6, [])]
         else if a = rect 0 4 10 6 \<and> b = rect 4 (-5) 6 15
         then MultiPolygon [(rect_ring 0 4 4 6, []), (rect_ring 6 4 10 6, [])]
         else if a = rect 0 4 12 6 \<and> b = rect 10 0 12 10 then rect 0 4 10 6
         else if a = rect 10 0 12 10 \<and> b = rect 0 4 12 6
         then MultiPolygon [(rect_ring 10 0 12 4, []), (rect_ring 10 6 12 10, [])]
         else a),
       distance := (\<lambda>a b.
         case (a, b) of
           (Point (Some (x1, y1)), Point (Some (x2, y2))) \<Rightarrow> real_of_int (\<bar>x1 - x2\<bar> + \<bar>y1 - y2\<bar>)
         | _ \<Rightarrow> 0)\<rparr>"

definition polygons_read :: "'p shapely \<Rightarrow> 'p wall list \<Rightarrow> (error + 'p geom) list" where
  "polygons_read L ws = map (\<lambda>w. fst (Wall_polygon L w)) ws"

definition read_wall_state :: "(int \<times> int) list \<Rightarrow> (int \<times> int) geom option \<Rightarrow> (int \<times> int) wall" where
  "read_wall_state pts cell =
     \<lparr>element_points = pts, polygon_cache = Some (Polygon (pts @ [hd pts]) []), priv_polygon = cell\<rparr>"

text \<open>
  Two floors of two rooms, one wall and one door in the wall. In the first, the wall lies
  between the rooms and shares an edge with each. In the second, the wall runs through
  room 0, from below it to the lower edge of room 1: its polygon and that of room 0 meet
  in a polygon, not in a line, and every end point of an edge of the one is at least 4
  away from every edge of the other; the door, in the part of the wall between the two
  rooms, touches both.
\<close>

definition between_floor :: "(int \<times> int) floor_plan" where
  "between_floor =
     \<lparr>room_polygons = [rect 0 0 10 10, rect 0 12 10 22],
      wall_polygons = [rect 0 10 10 12],
      railing_polygons = [],
      wall_openings = [[(Door, rect 4 10 6 12)]]\<rparr>"

definition between_library :: "(int \<times> int) shapely" where
  "between_library =
     plain_library\<lparr>
       intersection := (\<lambda>a b.
         if a = rect 0 0 10 10 \<and> b = rect 0 10 10 12 then LineString [(0, 10), (10, 10)]
         else if a = rect 0 12 10 22 \<and> b = rect 0 10 10 12 then LineString [(0, 12), (10, 12)]
         else GeometryCollection []),
       distance := (\<lambda>a b. if a = rect 0 0 10 10 \<and> b = rect 0 12 10 22 then 2 else 0)\<rparr>"

definition through_floor :: "(int \<times> int) floor_plan" where
  "through_floor =
     \<lparr>room_polygons = [rect 0 0 10 10, rect 0 15 10 25],
      wall_polygons = [rect 4 (-5) 6 15],
      railing_polygons = [],
      wall_openings = [[(Door, rect 4 10 6 15)]]\<rparr>"

definition through_library :: "(int \<times> int) shapely" where
  "through_library =
     plain_library\<lparr>
       intersection := (\<lambda>a b.
         if a = rect 0 0 10 10 \<and> b = rect 4 (-5) 6 15 then rect 4 0 6 10
         else if a = rect 0 15 10 25 \<and> b = rect 4 (-5) 6 15 then LineString [(4, 15), (6, 15)]
         else GeometryCollection []),
       distance := (\<lambda>a b.
         case b of
           Point c \<Rightarrow> 4
         | _ \<Rightarrow> if a = rect 0 0 10 10 \<and> b = rect 0 15 10 25 then 5 else 0)\<rparr>"

section \<open>Properties of edge closeness\<close>

lemma close_pairs_loop_count:
  "close_pairs_loop L tol found pairs =
     (2 \<le> (if found then 1 else 0) + length (filter (\<lambda>(e, p). distance L e p < tol) pairs))"
  by (induction pairs arbitrary: found) auto

lemma geom_index_endpoints:
  "length (endpoints L line) = 2 \<Longrightarrow> geom_index (boundary L line) 0 = Inr (endpoints L line ! 0) \<and> geom_index (boundary L line) 1 = Inr (endpoints L line ! 1)"
  by (auto simp: endpoints_def geom_index_def split: option.splits)

lemma two_list: "length xs = 2 \<Longrightarrow> xs = [xs ! 0, xs ! 1]"
  by (cases xs; cases "tl xs") auto

lemma lines_are_close_edges:
  assumes "is_edge L line1" "is_edge L line2"
  shows "lines_are_close L line1 line2 tol = Inr (2 \<le> qualifying_checks L line1 line2 tol)"
proof -
  from assms have l1: "length (endpoints L line1) = 2" and l2: "length (endpoints L line2) = 2"
    and pos: "geom_length L line1 > 0" "geom_length L line2 > 0"
    by (simp_all add: is_edge_def)
  have e1: "endpoints L line1 = [endpoints L line1 ! 0, endpoints L line1 ! 1]"
    using l1 by (rule two_list)
  have e2: "endpoints L line2 = [endpoints L line2 ! 0, endpoints L line2 ! 1]"
    using l2 by (rule two_list)
  have q: "qualifying_checks L line1 line2 tol =
      length (filter (\<lambda>(e, p). distance L e p < tol)
        [(line1, endpoints L line2 ! 0), (line1, endpoints L line2 ! 1),
         (line2, endpoints L line1 ! 0), (line2, endpoints L line1 ! 1)])"
    unfolding qualifying_checks_def by (subst e2, subst e1) simp
  show ?thesis
    using pos geom_index_endpoints[OF l1] geom_index_endpoints[OF l2]
    by (simp add: lines_are_close_def close_pairs_loop_count q del: filter.simps)
qed

lemma is_close_inner_True:
  "is_close_inner L e1 es = Inr True \<Longrightarrow> \<exists>e2 \<in> set es. lines_are_close L e1 e2 CLOSE_EDGE_TOLERANCE = Inr True"
  by (induction es) (auto split: sum.splits if_splits)

lemma is_close_outer_True:
  "is_close_outer L B es = Inr True \<Longrightarrow>
   \<exists>es2. polygon_edges B = Inr es2 \<and> (\<exists>e1 \<in> set es. \<exists>e2 \<in> set es2. lines_are_close L e1 e2 CLOSE_EDGE_TOLERANCE = Inr True)"
  by (induction es) (auto split: sum.splits if_splits dest: is_close_inner_True)

lemma is_close_True:
  "is_close L A B = Inr True \<Longrightarrow>
   \<exists>es1 es2. polygon_edges A = Inr es1 \<and> polygon_edges B = Inr es2 \<and> distance L A B \<le> CLOSE_EDGE_TOLERANCE \<and>
     (\<exists>e1 \<in> set es1. \<exists>e2 \<in> set es2. lines_are_close L e1 e2 CLOSE_EDGE_TOLERANCE = Inr True)"
  by (auto simp: is_close_def split: sum.splits if_splits dest: is_close_outer_True)

text \<open>
  Claim C4. For two edges, \<open>lines_are_close\<close> returns true exactly when at least two of
  the (edge, end point of the other edge) distance checks fall below the tolerance; and
  whenever \<open>_is_close\<close> answers true, which is the only way a "close" fact is recorded,
  some pair of edges of the two polygons passed \<open>lines_are_close\<close> at the tolerance 1.0.
\<close>

theorem lines_are_close_two_checks:
  "(is_edge L line1 \<and> is_edge L line2 \<longrightarrow>
      lines_are_close L line1 line2 tolerance =
        Inr (2 \<le> qualifying_checks L line1 line2 tolerance)) \<and>
   (is_close L A B = Inr True \<longrightarrow>
      (\<exists>es1 es2. polygon_edges A = Inr es1 \<and> polygon_edges B = Inr es2 \<and>
         (\<exists>e1 \<in> set es1. \<exists>e2 \<in> set es2.
            lines_are_close L e1 e2 CLOSE_EDGE_TOLERANCE = Inr True)))"
  using lines_are_close_edges is_close_True by blast

theorem lines_are_close_two_checks_witness:
  "is_edge near_touch_library (LineString [(5, 0), (10, 0)]) \<and>
   is_edge near_touch_library (LineString [(0, 1), (10, 1)]) \<and>
   qualifying_checks near_touch_library
      (LineString [(5, 0), (10, 0)]) (LineString [(0, 1), (10, 1)]) 1 = 1 \<and>
   lines_are_close near_touch_library
      (LineString [(5, 0), (10, 0)]) (LineString [(0, 1), (10, 1)]) 1 = Inr False \<and>
   is_close near_touch_library (Polygon [(0, 0), (10, 0), (0, 5), (0, 0)] [])
      (Polygon [(0, 0), (10, 0), (0, -5), (0, 0)] []) = Inr True \<and>
   lines_are_close near_touch_library (LineString [(0, 0), (10, 0)]) (LineString [(0, 0), (10, 0)])
      CLOSE_EDGE_TOLERANCE = Inr True"
  using lines_are_close_two_checks
    [of near_touch_library
        "LineString [(5, 0), (10, 0)]" "LineString [(0, 1), (10, 1)]" 1
        "Polygon [(0, 0), (10, 0), (0, 5), (0, 0)] []" "Polygon [(0, 0), (10, 0), (0, -5), (0, 0)] []"]
  by (simp add: is_edge_def endpoints_def plain_library_def near_touch_library_def qualifying_checks_def
      lines_are_close_def geom_index_def is_close_def polygon_edges_def CLOSE_EDGE_TOLERANCE_def)

section \<open>Properties of shape reconstruction\<close>




















section \<open>Properties of dividers\<close>

text \<open>
  Claim C6. What the code does: \<open>eligible_edges\<close> raises \<open>TypeError\<close> for every polygon,
  since it takes the length of the bound method \<^verbatim>\<open>self.edges\<close>; it returns neither the
  edges 0 and 2 nor the empty list.
\<close>

theorem eligible_edges_raises: "eligible_edges polygon = Inl TypeError"
  by (simp add: eligible_edges_def edges_attribute_def)

section \<open>Properties of fixture containment\<close>

lemma nine_list:
  assumes "length m = 9"
  shows "\<exists>c0 c1 c2 c3 c4 c5 c6 c7 c8. m = [c0, c1, c2, c3, c4, c5, c6, c7, c8]"
proof -
  have "length m = Suc (Suc (Suc (Suc (Suc (Suc (Suc (Suc (Suc 0))))))))" using assms by simp
  then show ?thesis by (auto simp: length_Suc_conv)
qed

lemma relate_pattern_interior:
  "relate_pattern L a b ''2********'' = (length (relate L a b) = 9 \<and> hd (relate L a b) = CHR ''2'')"
proof -
  have *: "list_all2 pattern_char_matches m ''2********'' = (length m = 9 \<and> hd m = CHR ''2'')" for m
  proof
    assume "list_all2 pattern_char_matches m ''2********''"
    then show "length m = 9 \<and> hd m = CHR ''2''"
      by (auto simp: list_all2_Cons2 pattern_char_matches_def)
  next
    assume a: "length m = 9 \<and> hd m = CHR ''2''"
    then obtain c0 c1 c2 c3 c4 c5 c6 c7 c8 where m: "m = [c0, c1, c2, c3, c4, c5, c6, c7, c8]"
      using nine_list by blast
    with a show "list_all2 pattern_char_matches m ''2********''"
      by (simp add: pattern_char_matches_def)
  qed
  show ?thesis unfolding relate_pattern_def by (rule *)
qed

lemma find_rooms_find:
  "find_rooms L fixture_polygon fixture s rooms =
     (case find (\<lambda>(room, room_polygon). relate_pattern L fixture_polygon room_polygon ''2********'') rooms of
        None \<Rightarrow> s
      | Some (room, room_polygon) \<Rightarrow> add_room s fixture room)"
  by (induction rooms) auto

text \<open>
  Claim C5, amended. The pattern \<^verbatim>\<open>2********\<close> tests the first position of the matrix
  only (interior/interior intersection of dimension 2). \<open>find_rooms\<close> assigns the fixture
  to the first room of the list that matches and to no other, adding the room to the
  fixture's set and the fixture to the room's set, and changes nothing when no room
  matches; the result is a function of the room order.
\<close>

theorem find_rooms_first_match:
  "relate_pattern L fixture_polygon room_polygon ''2********'' =
     (length (relate L fixture_polygon room_polygon) = 9 \<and>
      hd (relate L fixture_polygon room_polygon) = CHR ''2'') \<and>
   find_rooms L fixture_polygon fixture s rooms =
     (case find (\<lambda>(room, room_polygon). relate_pattern L fixture_polygon room_polygon ''2********'') rooms of
        None \<Rightarrow> s
      | Some (room, room_polygon) \<Rightarrow> add_room s fixture room) \<and>
   fixture_rooms (add_room no_containment fixture room) = (\<lambda>f. {})(fixture := {room}) \<and>
   room_fixtures (add_room no_containment fixture room) = (\<lambda>r. {})(room := {fixture})"
proof (intro conjI)
  show "relate_pattern L fixture_polygon room_polygon ''2********'' =
     (length (relate L fixture_polygon room_polygon) = 9 \<and>
      hd (relate L fixture_polygon room_polygon) = CHR ''2'')"
    by (rule relate_pattern_interior)
  show "find_rooms L fixture_polygon fixture s rooms =
     (case find (\<lambda>(room, room_polygon). relate_pattern L fixture_polygon room_polygon ''2********'') rooms of
        None \<Rightarrow> s
      | Some (room, room_polygon) \<Rightarrow> add_room s fixture room)"
    by (rule find_rooms_find)
qed (simp_all add: add_room_def no_containment_def)

theorem find_rooms_first_match_witness:
  "find_rooms inside_library (Polygon [(2, 2), (4, 2), (4, 4), (2, 4), (2, 2)] []) 0 no_containment
     [(0, Polygon [(0, 0), (10, 0), (10, 10), (0, 10), (0, 0)] []),
      (1, Polygon [(0, 0), (20, 0), (20, 20), (0, 20), (0, 0)] [])]
   = add_room no_containment 0 0"
  using find_rooms_first_match [of inside_library "Polygon [(2, 2), (4, 2), (4, 4), (2, 4), (2, 2)] []"
     "Polygon [(0, 0), (10, 0), (10, 10), (0, 10), (0, 0)] []" 0 no_containment
     "[(0, Polygon [(0, 0), (10, 0), (10, 10), (0, 10), (0, 0)] []),
      (1, Polygon [(0, 0), (20, 0), (20, 20), (0, 20), (0, 0)] [])]" 0]
  by (simp add: inside_library_def plain_library_def)

text \<open>
  Claim C5 as stated fails: a fixture strictly inside a room is assigned to it, although
  the second position of the matrix (interior/boundary) is \<open>F\<close>.
\<close>

theorem find_rooms_second_position_counterexample:
  "find_rooms inside_library (Polygon [(2, 2), (4, 2), (4, 4), (2, 4), (2, 2)] []) 0 no_containment
     [(0, Polygon [(0, 0), (10, 0), (10, 10), (0, 10), (0, 0)] [])]
   = add_room no_containment 0 0 \<and>
   \<not> spec_fixture_relation (relate inside_library (Polygon [(2, 2), (4, 2), (4, 4), (2, 4), (2, 2)] [])
       (Polygon [(0, 0), (10, 0), (10, 10), (0, 10), (0, 0)] []))"
  by (simp add: inside_library_def plain_library_def relate_pattern_def spec_fixture_relation_def
      pattern_char_matches_def)

section \<open>Properties of cached polygons and of overlap resolution\<close>

text \<open>A read that returns fills the cell it reads, and a filled cell is what the next
  read returns.\<close>

lemma PlanObject_polygon_cached:
  "polygon_cache obj = Some g \<Longrightarrow> PlanObject_polygon L obj = (Inr g, obj)"
  by (cases obj) (simp add: PlanObject_polygon_def cached_property_def)

lemma Wall_polygon_cell:
  "priv_polygon w = Some g \<Longrightarrow> Wall_polygon L w = (Inr g, w)"
  by (simp add: Wall_polygon_def)

lemma Wall_polygon_fills:
  "Wall_polygon L w = (Inr g, w') \<Longrightarrow> priv_polygon w' = Some g"
  by (auto simp: Wall_polygon_def split: option.splits prod.splits sum.splits)

lemma read_wall_returns:
  assumes "i < length ws" "fst (Wall_polygon L (ws ! i)) = Inr g"
  shows "\<exists>ws'. read_wall L ws i = (Inr g, ws') \<and>
     length ws' = length ws \<and> priv_polygon (ws' ! i) = Some g \<and>
     (\<forall>k. k \<noteq> i \<longrightarrow> ws' ! k = ws ! k)"
proof -
  obtain w' where w: "Wall_polygon L (ws ! i) = (Inr g, w')"
    using assms(2) by (cases "Wall_polygon L (ws ! i)") simp
  from Wall_polygon_fills[OF w] w show ?thesis using assms(1) by (simp add: read_wall_def)
qed

lemma read_both_walls:
  assumes "self < length ws" "other < length ws" "self \<noteq> other"
    and "fst (Wall_polygon L (ws ! self)) = Inr a" "fst (Wall_polygon L (ws ! other)) = Inr b"
  shows "\<exists>ws1 ws2. read_wall L ws self = (Inr a, ws1) \<and> read_wall L ws1 other = (Inr b, ws2) \<and>
     length ws2 = length ws \<and> priv_polygon (ws2 ! self) = Some a \<and>
     priv_polygon (ws2 ! other) = Some b \<and>
     (\<forall>k. k \<noteq> self \<longrightarrow> k \<noteq> other \<longrightarrow> ws2 ! k = ws ! k)"
proof -
  obtain ws1 where r1: "read_wall L ws self = (Inr a, ws1)" "length ws1 = length ws"
      "priv_polygon (ws1 ! self) = Some a" "\<forall>k. k \<noteq> self \<longrightarrow> ws1 ! k = ws ! k"
    using read_wall_returns[OF assms(1) assms(4)] by blast
  have o1: "other < length ws1" using assms(2) r1(2) by simp
  have "ws1 ! other = ws ! other" using r1(4) assms(3) by simp
  then have o2: "fst (Wall_polygon L (ws1 ! other)) = Inr b" using assms(5) by simp
  obtain ws2 where r2: "read_wall L ws1 other = (Inr b, ws2)" "length ws2 = length ws1"
      "priv_polygon (ws2 ! other) = Some b" "\<forall>k. k \<noteq> other \<longrightarrow> ws2 ! k = ws1 ! k"
    using read_wall_returns[OF o1 o2] by blast
  have "ws2 ! self = ws1 ! self" using r2(4) assms(3) by simp
  then have "priv_polygon (ws2 ! self) = Some a" using r1(3) by simp
  moreover have "\<forall>k. k \<noteq> self \<longrightarrow> k \<noteq> other \<longrightarrow> ws2 ! k = ws ! k" using r1(4) r2(4) by simp
  ultimately show ?thesis using r1(1,2) r2(1,2,3) by auto
qed

lemma remove_overlaps_self_clean:
  assumes "self < length ws" "other < length ws" "self \<noteq> other"
    and "fst (Wall_polygon L (ws ! self)) = Inr a" "fst (Wall_polygon L (ws ! other)) = Inr b"
    and "relate_pattern L a b ''2121T1212''"
    and "subtract_cleanly L a b CLOSE_EDGE_TOLERANCE = Inr (Some d)"
  shows "\<exists>ws'. remove_overlaps L clean ws self other = Inr (Some True, ws') \<and>
     length ws' = length ws \<and>
     Wall_polygon L' (ws' ! self) = (Inr d, ws' ! self) \<and>
     Wall_polygon L' (ws' ! other) = (Inr b, ws' ! other) \<and>
     (\<forall>k. k \<noteq> self \<longrightarrow> k \<noteq> other \<longrightarrow> ws' ! k = ws ! k)"
proof -
  obtain ws1 ws2 where r: "read_wall L ws self = (Inr a, ws1)" "read_wall L ws1 other = (Inr b, ws2)"
      "length ws2 = length ws" "priv_polygon (ws2 ! self) = Some a"
      "priv_polygon (ws2 ! other) = Some b"
      "\<forall>k. k \<noteq> self \<longrightarrow> k \<noteq> other \<longrightarrow> ws2 ! k = ws ! k"
    using read_both_walls[OF assms(1-5)] by blast
  let ?ws' = "set_priv_polygon ws2 self (Some d)"
  have res: "remove_overlaps L clean ws self other = Inr (Some True, ?ws')"
    using r(1,2) assms(6,7) by (simp add: remove_overlaps_def)
  have len: "length ?ws' = length ws" using r(3) by (simp add: set_priv_polygon_def)
  have s: "priv_polygon (?ws' ! self) = Some d"
    using assms(1) r(3) by (simp add: set_priv_polygon_def)
  have o: "priv_polygon (?ws' ! other) = Some b"
    using assms(3) r(5) by (simp add: set_priv_polygon_def)
  have rest: "\<forall>k. k \<noteq> self \<longrightarrow> k \<noteq> other \<longrightarrow> ?ws' ! k = ws ! k"
    using r(6) by (simp add: set_priv_polygon_def)
  show ?thesis using res len Wall_polygon_cell[OF s] Wall_polygon_cell[OF o] rest by blast
qed

lemma remove_overlaps_other_clean:
  assumes "self < length ws" "other < length ws" "self \<noteq> other"
    and "fst (Wall_polygon L (ws ! self)) = Inr a" "fst (Wall_polygon L (ws ! other)) = Inr b"
    and "relate_pattern L a b ''2121T1212''"
    and "subtract_cleanly L a b CLOSE_EDGE_TOLERANCE = Inr None"
    and "subtract_cleanly L b a CLOSE_EDGE_TOLERANCE = Inr (Some d)"
  shows "\<exists>ws'. remove_overlaps L clean ws self other = Inr (Some True, ws') \<and>
     length ws' = length ws \<and>
     Wall_polygon L' (ws' ! self) = (Inr a, ws' ! self) \<and>
     Wall_polygon L' (ws' ! other) = (Inr d, ws' ! other) \<and>
     (\<forall>k. k \<noteq> self \<longrightarrow> k \<noteq> other \<longrightarrow> ws' ! k = ws ! k)"
proof -
  obtain ws1 ws2 where r: "read_wall L ws self = (Inr a, ws1)" "read_wall L ws1 other = (Inr b, ws2)"
      "length ws2 = length ws" "priv_polygon (ws2 ! self) = Some a"
      "priv_polygon (ws2 ! other) = Some b"
      "\<forall>k. k \<noteq> self \<longrightarrow> k \<noteq> other \<longrightarrow> ws2 ! k = ws ! k"
    using read_both_walls[OF assms(1-5)] by blast
  let ?ws' = "set_priv_polygon ws2 other (Some d)"
  have res: "remove_overlaps L clean ws self other = Inr (Some True, ?ws')"
    using r(1,2) assms(6,7,8) by (simp add: remove_overlaps_def)
  have len: "length ?ws' = length ws" using r(3) by (simp add: set_priv_polygon_def)
  have s: "priv_polygon (?ws' ! self) = Some a"
    using assms(3) r(4) by (simp add: set_priv_polygon_def)
  have o: "priv_polygon (?ws' ! other) = Some d"
    using assms(2) r(3) by (simp add: set_priv_polygon_def)
  have rest: "\<forall>k. k \<noteq> self \<longrightarrow> k \<noteq> other \<longrightarrow> ?ws' ! k = ws ! k"
    using r(6) by (simp add: set_priv_polygon_def)
  show ?thesis using res len Wall_polygon_cell[OF s] Wall_polygon_cell[OF o] rest by blast
qed

lemma subtract_cleanly_Polygon:
  "difference L a b = Polygon shell holes \<Longrightarrow>
   subtract_cleanly L a b tol = Inr (Some (Polygon shell holes))"
  by (simp add: subtract_cleanly_def)






lemma cached_property_reread:
  "cached_property compute slot = (Inr v, slot') \<Longrightarrow>
   cached_property compute' slot' = (Inr v, slot')"
  by (auto simp: cached_property_def split: option.splits sum.splits)

lemma PlanObject_polygon_reread:
  "PlanObject_polygon L obj = (Inr g, obj') \<Longrightarrow> PlanObject_polygon L' obj' = (Inr g, obj')"
  by (cases obj) (auto simp: PlanObject_polygon_def cached_property_def split: option.splits sum.splits)

lemma Wall_polygon_reread:
  "Wall_polygon L w = (Inr g, w') \<Longrightarrow> Wall_polygon L' w' = (Inr g, w')"
  by (auto simp: Wall_polygon_def split: option.splits sum.splits prod.splits)

text \<open>The run of the three crossing walls.\<close>

lemmas crossing_defs = crossing_library_def plain_library_def crossing_walls_def new_wall_def
  rect_def rect_ring_def remove_overlaps_def read_wall_def Wall_polygon_def PlanObject_polygon_def
  cached_property_def   polygon_from_points_def relate_pattern_def pattern_char_matches_def subtract_cleanly_def
  minimum_rotated_rectangle_dimension_def set_priv_polygon_def CLOSE_EDGE_TOLERANCE_def
  polygons_read_def Let_def

lemma crossing_round1:
  "map_sum id (\<lambda>(ws, retry). (polygons_read crossing_library ws, retry))
     (resolution_round crossing_library crossing_walls [] [(0, 1), (0, 2), (1, 2)]) =
   Inr ([Inr (rect 4 (-5) 6 15), Inr (rect 0 4 10 6), Inr (rect 10 0 12 10)], [(0, 1)])"
  by (simp add: crossing_defs)

lemma crossing_run:
  "map_option (map_sum id (polygons_read crossing_library))
     (remove_wall_overlaps 4 crossing_library crossing_walls) =
   Some (Inr [Inr (rect 4 (-5) 6 15), Inr (rect 0 4 12 6), Inr (rect 10 0 12 10)])"
  by (simp add: crossing_defs remove_wall_overlaps_def eval_nat_numeral)



text \<open>
  Claim C9. When two distinct walls overlap properly and the difference of the polygon of
  \<open>self\<close> minus that of the other wall is a single polygon, \<open>remove_overlaps\<close> returns
  \<open>True\<close>, the polygon of \<open>self\<close> reads as that difference afterwards, the polygon of the
  other wall reads as before, and no other wall changes.
\<close>

theorem remove_overlaps_clean_difference:
  assumes "self < length ws" "other < length ws" "self \<noteq> other"
    and "fst (Wall_polygon L (ws ! self)) = Inr a" "fst (Wall_polygon L (ws ! other)) = Inr b"
    and "relate_pattern L a b ''2121T1212''"
    and "difference L a b = Polygon shell holes"
  shows "\<exists>ws'. remove_overlaps L clean_overlaps_only ws self other = Inr (Some True, ws') \<and>
     length ws' = length ws \<and>
     fst (Wall_polygon L (ws' ! self)) = Inr (difference L a b) \<and>
     fst (Wall_polygon L (ws' ! other)) = Inr b \<and>
     (\<forall>k. k \<noteq> self \<longrightarrow> k \<noteq> other \<longrightarrow> ws' ! k = ws ! k)"
proof -
  have "subtract_cleanly L a b CLOSE_EDGE_TOLERANCE = Inr (Some (difference L a b))"
    using assms(7) subtract_cleanly_Polygon[of L a b shell holes] by simp
  from remove_overlaps_self_clean[OF assms(1-6) this, of clean_overlaps_only L]
  show ?thesis by force
qed

theorem remove_overlaps_clean_difference_witness:
  "remove_overlaps crossing_library True
     [new_wall [(0, 4), (12, 4), (12, 6), (0, 6)], new_wall [(10, 0), (12, 0), (12, 10), (10, 10)]] 0 1 =
   Inr (Some True,
     [\<lparr>element_points = [(0, 4), (12, 4), (12, 6), (0, 6)], polygon_cache = Some (rect 0 4 12 6),
       priv_polygon = Some (rect 0 4 10 6)\<rparr>,
      \<lparr>element_points = [(10, 0), (12, 0), (12, 10), (10, 10)], polygon_cache = Some (rect 10 0 12 10),
       priv_polygon = Some (rect 10 0 12 10)\<rparr>])"
  using remove_overlaps_clean_difference [of 0
     "[new_wall [(0, 4), (12, 4), (12, 6), (0, 6)], new_wall [(10, 0), (12, 0), (12, 10), (10, 10)]]"
     1 crossing_library "rect 0 4 12 6" "rect 10 0 12 10" "rect_ring 0 4 10 6" "[]" True]
  by (simp add: crossing_defs)

text \<open>
  The cells at work. After a read of a polygon property has returned a geometry, the next
  read returns that geometry and leaves the object as it is, whatever the library would
  compute: nothing is computed twice. A call of \<open>remove_overlaps\<close> that finds a clean
  difference stores it, and the next read of that wall returns it.
\<close>

lemma polygon_cached_and_replaced:
  "(cached_property compute slot = (Inr v, slot') \<longrightarrow>
      cached_property compute' slot' = (Inr v, slot')) \<and>
   (PlanObject_polygon L obj = (Inr g, obj') \<longrightarrow> PlanObject_polygon L' obj' = (Inr g, obj')) \<and>
   (Wall_polygon L w = (Inr g, w') \<longrightarrow> Wall_polygon L' w' = (Inr g, w')) \<and>
   (self < length ws \<and> other < length ws \<and> self \<noteq> other \<and>
    fst (Wall_polygon L (ws ! self)) = Inr a \<and> fst (Wall_polygon L (ws ! other)) = Inr b \<and>
    relate_pattern L a b ''2121T1212'' \<longrightarrow>
      (subtract_cleanly L a b CLOSE_EDGE_TOLERANCE = Inr (Some d) \<longrightarrow>
         (\<exists>ws'. remove_overlaps L clean_overlaps_only ws self other = Inr (Some True, ws') \<and>
            Wall_polygon L' (ws' ! self) = (Inr d, ws' ! self))) \<and>
      (subtract_cleanly L a b CLOSE_EDGE_TOLERANCE = Inr None \<and>
       subtract_cleanly L b a CLOSE_EDGE_TOLERANCE = Inr (Some d) \<longrightarrow>
         (\<exists>ws'. remove_overlaps L clean_overlaps_only ws self other = Inr (Some True, ws') \<and>
            Wall_polygon L' (ws' ! other) = (Inr d, ws' ! other))))"
proof (intro conjI impI)
  show "cached_property compute' slot' = (Inr v, slot')"
    if "cached_property compute slot = (Inr v, slot')"
    using that by (rule cached_property_reread)
  show "PlanObject_polygon L' obj' = (Inr g, obj')" if "PlanObject_polygon L obj = (Inr g, obj')"
    using that by (rule PlanObject_polygon_reread)
  show "Wall_polygon L' w' = (Inr g, w')" if "Wall_polygon L w = (Inr g, w')"
    using that by (rule Wall_polygon_reread)
next
  assume h: "self < length ws \<and> other < length ws \<and> self \<noteq> other \<and>
    fst (Wall_polygon L (ws ! self)) = Inr a \<and> fst (Wall_polygon L (ws ! other)) = Inr b \<and>
    relate_pattern L a b ''2121T1212''"
  assume c: "subtract_cleanly L a b CLOSE_EDGE_TOLERANCE = Inr (Some d)"
  from h c remove_overlaps_self_clean[of self ws other L a b d clean_overlaps_only L']
  show "\<exists>ws'. remove_overlaps L clean_overlaps_only ws self other = Inr (Some True, ws') \<and>
            Wall_polygon L' (ws' ! self) = (Inr d, ws' ! self)" by blast
next
  assume h: "self < length ws \<and> other < length ws \<and> self \<noteq> other \<and>
    fst (Wall_polygon L (ws ! self)) = Inr a \<and> fst (Wall_polygon L (ws ! other)) = Inr b \<and>
    relate_pattern L a b ''2121T1212''"
  assume c: "subtract_cleanly L a b CLOSE_EDGE_TOLERANCE = Inr None \<and>
       subtract_cleanly L b a CLOSE_EDGE_TOLERANCE = Inr (Some d)"
  from h c remove_overlaps_other_clean[of self ws other L a b d clean_overlaps_only L']
  show "\<exists>ws'. remove_overlaps L clean_overlaps_only ws self other = Inr (Some True, ws') \<and>
            Wall_polygon L' (ws' ! other) = (Inr d, ws' ! other)" by blast
qed

lemma polygon_cached_and_replaced_example:
  "cached_property (polygon_from_points crossing_library [(0, 4), (12, 4), (12, 6), (0, 6)]) None =
     (Inr (rect 0 4 12 6), Some (rect 0 4 12 6)) \<and>
   cached_property (Inl TypeError) (Some (rect 0 4 12 6)) =
     (Inr (rect 0 4 12 6), Some (rect 0 4 12 6)) \<and>
   PlanObject_polygon crossing_library (new_wall [(0, 4), (12, 4), (12, 6), (0, 6)]) =
     (Inr (rect 0 4 12 6), read_wall_state [(0, 4), (12, 4), (12, 6), (0, 6)] None) \<and>
   PlanObject_polygon plain_library (read_wall_state [(0, 4), (12, 4), (12, 6), (0, 6)] None) =
     (Inr (rect 0 4 12 6), read_wall_state [(0, 4), (12, 4), (12, 6), (0, 6)] None) \<and>
   Wall_polygon crossing_library (new_wall [(0, 4), (12, 4), (12, 6), (0, 6)]) =
     (Inr (rect 0 4 12 6), read_wall_state [(0, 4), (12, 4), (12, 6), (0, 6)] (Some (rect 0 4 12 6))) \<and>
   subtract_cleanly crossing_library (rect 0 4 12 6) (rect 10 0 12 10) CLOSE_EDGE_TOLERANCE =
     Inr (Some (rect 0 4 10 6)) \<and>
   (\<exists>ws'. remove_overlaps crossing_library True
      [new_wall [(0, 4), (12, 4), (12, 6), (0, 6)], new_wall [(10, 0), (12, 0), (12, 10), (10, 10)]] 0 1
        = Inr (Some True, ws') \<and>
      Wall_polygon plain_library (ws' ! 0) = (Inr (rect 0 4 10 6), ws' ! 0)) \<and>
   subtract_cleanly crossing_library (rect 10 0 12 10) (rect 0 4 12 6) CLOSE_EDGE_TOLERANCE = Inr None \<and>
   (\<exists>ws'. remove_overlaps crossing_library True
      [new_wall [(10, 0), (12, 0), (12, 10), (10, 10)], new_wall [(0, 4), (12, 4), (12, 6), (0, 6)]] 0 1
        = Inr (Some True, ws') \<and>
      Wall_polygon plain_library (ws' ! 1) = (Inr (rect 0 4 10 6), ws' ! 1))"
  using polygon_cached_and_replaced
      [where compute = "polygon_from_points crossing_library [(0, 4), (12, 4), (12, 6), (0, 6)]"
         and slot = None and v = "rect 0 4 12 6" and slot' = "Some (rect 0 4 12 6)"
         and compute' = "Inl TypeError" and L = crossing_library
         and obj = "new_wall [(0, 4), (12, 4), (12, 6), (0, 6)]" and g = "rect 0 4 12 6"
         and obj' = "read_wall_state [(0, 4), (12, 4), (12, 6), (0, 6)] None"
         and L' = plain_library and w = "new_wall [(0, 4), (12, 4), (12, 6), (0, 6)]"
         and w' = "read_wall_state [(0, 4), (12, 4), (12, 6), (0, 6)] (Some (rect 0 4 12 6))"
         and self = 0 and other = 1
         and ws = "[new_wall [(0, 4), (12, 4), (12, 6), (0, 6)],
                    new_wall [(10, 0), (12, 0), (12, 10), (10, 10)]]"
         and a = "rect 0 4 12 6" and b = "rect 10 0 12 10" and d = "rect 0 4 10 6"
         and clean_overlaps_only = True]
    polygon_cached_and_replaced
      [where compute = "polygon_from_points crossing_library [(0, 4), (12, 4), (12, 6), (0, 6)]"
         and slot = None and v = "rect 0 4 12 6" and slot' = "Some (rect 0 4 12 6)"
         and compute' = "Inl TypeError" and L = crossing_library
         and obj = "new_wall [(0, 4), (12, 4), (12, 6), (0, 6)]" and g = "rect 0 4 12 6"
         and obj' = "read_wall_state [(0, 4), (12, 4), (12, 6), (0, 6)] None"
         and L' = plain_library and w = "new_wall [(0, 4), (12, 4), (12, 6), (0, 6)]"
         and w' = "read_wall_state [(0, 4), (12, 4), (12, 6), (0, 6)] (Some (rect 0 4 12 6))"
         and self = 0 and other = 1
         and ws = "[new_wall [(10, 0), (12, 0), (12, 10), (10, 10)],
                    new_wall [(0, 4), (12, 4), (12, 6), (0, 6)]]"
         and a = "rect 10 0 12 10" and b = "rect 0 4 12 6" and d = "rect 0 4 10 6"
         and clean_overlaps_only = True]
  by (simp add: crossing_defs read_wall_state_def)

text \<open>
  Claim C7. A polygon is computed at most once, except that of a wall, which overlap
  resolution replaces: every read after a replacement is to observe the replaced polygon,
  not the one computed first. The code breaks this on the three crossing walls. In the
  first round wall 1 is trimmed against wall 2 and reads as the rectangle from (0,4) to
  (10,6). The pair of walls 0 and 1 stagnates, and the forced call assigns
  \<^verbatim>\<open>other_difference\<close>, which is \<^verbatim>\<open>None\<close> at that line, to the cell of wall 1. As
  \<^verbatim>\<open>None\<close> is also what \<^verbatim>\<open>Wall.polygon\<close> takes for a cell never read, the next read of
  wall 1 returns the polygon computed first, from (0,4) to (12,6): after the run every
  wall reads as before it, and walls 1 and 2 overlap again.
\<close>

theorem forced_fallback_reverts_wall_polygon:
  "map_sum id (\<lambda>(ws, retry). (polygons_read crossing_library ws, retry))
     (resolution_round crossing_library crossing_walls [] [(0, 1), (0, 2), (1, 2)]) =
   Inr ([Inr (rect 4 (-5) 6 15), Inr (rect 0 4 10 6), Inr (rect 10 0 12 10)], [(0, 1)]) \<and>
   map_option (map_sum id (polygons_read crossing_library))
     (remove_wall_overlaps 4 crossing_library crossing_walls) =
   Some (Inr [Inr (rect 4 (-5) 6 15), Inr (rect 0 4 12 6), Inr (rect 10 0 12 10)]) \<and>
   polygons_read crossing_library crossing_walls =
     [Inr (rect 4 (-5) 6 15), Inr (rect 0 4 12 6), Inr (rect 10 0 12 10)] \<and>
   rect 0 4 10 6 \<noteq> rect 0 4 12 6 \<and>
   relate_pattern crossing_library (rect 0 4 12 6) (rect 10 0 12 10) ''2121T1212''"
  using crossing_round1 crossing_run by (simp add: crossing_defs)

section \<open>Properties of the adjacency pass\<close>

text \<open>The openings loop leaves the adjacency tables alone, and a pair of facts added to
  both sides keeps the tables symmetric.\<close>

lemma check_adjacencies_adjacencies [simp]:
  "adjacencies (check_adjacencies L fp s opening d room) = adjacencies s"
  by (simp add: check_adjacencies_def opening_add_adjacency_def Let_def split: opening_kind.splits)

lemma openings_loop_adjacencies [simp]:
  "adjacencies (openings_loop L fp s w room k openings) = adjacencies s"
  by (induction openings arbitrary: s k) simp_all

lemma add_adjacency_adjacencies:
  "adjacencies (add_adjacency L fp s self object info) =
     (adjacencies s)(self := AdjacencyList_add (adjacencies s self) object info)"
  by (cases "(L, fp, s, self, object, info)" rule: add_adjacency.cases)
     (simp_all add: PlanObject_add_adjacency_def)

lemma add_pair_symmetric:
  assumes "symmetric s"
  shows "symmetric (add_adjacency L fp (add_adjacency L fp s a b info) b a info)"
  using assms unfolding symmetric_def add_adjacency_adjacencies AdjacencyList_add_def
  by (auto split: option.splits)

lemma find_adjacencies_symmetric:
  "symmetric s \<Longrightarrow> find_adjacencies L fp s self others = Inr s' \<Longrightarrow> symmetric s'"
proof (induction others arbitrary: s)
  case Nil
  then show ?case by simp
next
  case (Cons other others)
  then show ?case
    by (auto simp: Let_def split: if_splits sum.splits intro: add_pair_symmetric)
qed

lemma rooms_loop_symmetric:
  "symmetric s \<Longrightarrow> rooms_loop L fp s rs = Inr s' \<Longrightarrow> symmetric s'"
proof (induction rs arbitrary: s)
  case Nil
  then show ?case by simp
next
  case (Cons r rs)
  from Cons.prems(2) obtain s1 s2 s3 where
    a: "find_adjacencies L fp s (RoomRef r) (map WallRef [0..<length (wall_polygons fp)]) = Inr s1"
    and b: "find_adjacencies L fp s1 (RoomRef r) (map RailingRef [0..<length (railing_polygons fp)]) = Inr s2"
    and c: "find_adjacencies L fp s2 (RoomRef r) (map RoomRef [r + 1..<length (room_polygons fp)]) = Inr s3"
    and d: "rooms_loop L fp s3 rs = Inr s'"
    by (auto split: sum.splits)
  from Cons.prems(1) a have "symmetric s1" by (rule find_adjacencies_symmetric)
  then have "symmetric s2" using b by (rule find_adjacencies_symmetric)
  then have "symmetric s3" using c by (rule find_adjacencies_symmetric)
  then show ?case using d by (rule Cons.IH)
qed

lemma initial_symmetric: "symmetric initial_state"
  by (simp add: symmetric_def initial_state_def)

text \<open>The room list of an opening and the door sets of the rooms, step by step.\<close>

lemma check_adjacencies_opening_rooms:
  "opening_rooms (check_adjacencies L fp s opening d0 room) d =
     opening_rooms s d @
       (if d = d0 \<and> distance L (snd opening) (room_polygons fp ! room) < CLOSE_EDGE_TOLERANCE
        then [room] else [])"
  by (simp add: check_adjacencies_def opening_add_adjacency_def Let_def split: opening_kind.splits)

lemma drop_Cons_eq:
  assumes "o1 # os = drop k full"
  shows "k < length full \<and> o1 = full ! k \<and> os = drop (Suc k) full"
proof -
  have k: "k < length full" using assms by (cases "k < length full") auto
  have "o1 # os = full ! k # drop (Suc k) full"
    using assms Cons_nth_drop_Suc[OF k] by simp
  then show ?thesis using k by simp
qed

lemma openings_loop_opening_rooms:
  "os = drop k0 (wall_openings fp ! w) \<Longrightarrow>
   opening_rooms (openings_loop L fp s w room k0 os) d =
     opening_rooms s d @
       (if fst d = w \<and> k0 \<le> snd d \<and> opening_hit L fp d room then [room] else [])"
proof (induction os arbitrary: s k0)
  case Nil
  then show ?case by (auto simp: opening_hit_def)
next
  case (Cons o1 os)
  from drop_Cons_eq[OF Cons.prems] have k: "k0 < length (wall_openings fp ! w)"
    and o1: "o1 = wall_openings fp ! w ! k0" and os: "os = drop (Suc k0) (wall_openings fp ! w)"
    by simp_all
  show ?case
    unfolding openings_loop.simps Cons.IH[OF os] check_adjacencies_opening_rooms
    using k o1 by (cases d; cases "snd d = k0") (auto simp: opening_hit_def)
qed

lemma PlanObject_add_adjacency_opening_rooms [simp]:
  "opening_rooms (PlanObject_add_adjacency s self object info) = opening_rooms s"
  "room_doors (PlanObject_add_adjacency s self object info) = room_doors s"
  by (simp_all add: PlanObject_add_adjacency_def)

lemma add_adjacency_opening_rooms:
  "opening_rooms (add_adjacency L fp s self object info) d =
     opening_rooms s d @
       (case (self, object) of
          (WallRef w, RoomRef r) \<Rightarrow> if fst d = w \<and> opening_hit L fp d r then [r] else []
        | _ \<Rightarrow> [])"
  by (cases "(L, fp, s, self, object, info)" rule: add_adjacency.cases)
     (simp_all add: openings_loop_opening_rooms split: ref.splits)

lemma check_adjacencies_doors_linked:
  assumes "doors_linked fp s" "k < length (wall_openings fp ! w)"
  shows "doors_linked fp (check_adjacencies L fp s (wall_openings fp ! w ! k) (w, k) room)"
  using assms unfolding doors_linked_def check_adjacencies_def opening_add_adjacency_def Let_def
  by (auto split: opening_kind.splits)

lemma openings_loop_doors_linked:
  "os = drop k0 (wall_openings fp ! w) \<Longrightarrow> doors_linked fp s \<Longrightarrow>
   doors_linked fp (openings_loop L fp s w room k0 os)"
proof (induction os arbitrary: s k0)
  case Nil
  then show ?case by simp
next
  case (Cons o1 os)
  from drop_Cons_eq[OF Cons.prems(1)] have k: "k0 < length (wall_openings fp ! w)"
    and o1: "o1 = wall_openings fp ! w ! k0" and os: "os = drop (Suc k0) (wall_openings fp ! w)"
    by simp_all
  have "doors_linked fp (check_adjacencies L fp s o1 (w, k0) room)"
    unfolding o1 using Cons.prems(2) k by (rule check_adjacencies_doors_linked)
  from Cons.IH[OF os this] show ?case by simp
qed

lemma PlanObject_add_adjacency_doors_linked:
  "doors_linked fp s \<Longrightarrow> doors_linked fp (PlanObject_add_adjacency s self object info)"
  by (simp add: doors_linked_def)

lemma add_adjacency_doors_linked:
  "doors_linked fp s \<Longrightarrow> doors_linked fp (add_adjacency L fp s self object info)"
  by (cases "(L, fp, s, self, object, info)" rule: add_adjacency.cases)
     (simp_all add: openings_loop_doors_linked PlanObject_add_adjacency_doors_linked)

lemma find_adjacencies_doors_linked:
  "doors_linked fp s \<Longrightarrow> find_adjacencies L fp s self others = Inr s' \<Longrightarrow> doors_linked fp s'"
proof (induction others arbitrary: s)
  case Nil
  then show ?case by simp
next
  case (Cons other others)
  then show ?case
    by (auto simp: Let_def split: if_splits sum.splits intro: add_adjacency_doors_linked)
qed

lemma rooms_loop_doors_linked:
  "doors_linked fp s \<Longrightarrow> rooms_loop L fp s rs = Inr s' \<Longrightarrow> doors_linked fp s'"
proof (induction rs arbitrary: s)
  case Nil
  then show ?case by simp
next
  case (Cons r rs)
  from Cons.prems(2) obtain s1 s2 s3 where
    a: "find_adjacencies L fp s (RoomRef r) (map WallRef [0..<length (wall_polygons fp)]) = Inr s1"
    and b: "find_adjacencies L fp s1 (RoomRef r) (map RailingRef [0..<length (railing_polygons fp)]) = Inr s2"
    and c: "find_adjacencies L fp s2 (RoomRef r) (map RoomRef [r + 1..<length (room_polygons fp)]) = Inr s3"
    and d: "rooms_loop L fp s3 rs = Inr s'"
    by (auto split: sum.splits)
  from Cons.prems(1) a have "doors_linked fp s1" by (rule find_adjacencies_doors_linked)
  then have "doors_linked fp s2" using b by (rule find_adjacencies_doors_linked)
  then have "doors_linked fp s3" using c by (rule find_adjacencies_doors_linked)
  then show ?case using d by (rule Cons.IH)
qed

text \<open>What \<open>find_adjacencies\<close> of a room adds to the room list of an opening: the room,
  once, when the list of objects holds the wall of the opening, the pass records the room
  and the wall as adjacent, and the opening is nearer to the room than the tolerance;
  nothing when the list holds no wall.\<close>

lemma find_adjacencies_walls_opening_rooms:
  "find_adjacencies L fp s (RoomRef r) (map WallRef ws) = Inr s' \<Longrightarrow> distinct ws \<Longrightarrow>
   opening_rooms s' d =
     opening_rooms s d @
       (if fst d \<in> set ws \<and>
           records_adjacency L (room_polygons fp ! r) (wall_polygons fp ! fst d) \<and>
           opening_hit L fp d r
        then [r] else [])"
proof (induction ws arbitrary: s)
  case Nil
  then show ?case by simp
next
  case (Cons w ws)
  let ?a = "room_polygons fp ! r" and ?b = "wall_polygons fp ! w"
  let ?inter = "intersection L ?a ?b"
  from Cons.prems(2) have dis: "distinct ws" and notin: "w \<notin> set ws" by simp_all
  show ?case
  proof (cases "records_adjacency L ?a ?b")
    case True
    then obtain info where step: "find_adjacencies L fp
        (add_adjacency L fp (add_adjacency L fp s (RoomRef r) (WallRef w) info) (WallRef w) (RoomRef r) info)
        (RoomRef r) (map WallRef ws) = Inr s'"
      using Cons.prems(1)
      by (auto simp: records_adjacency_def Let_def split: if_splits sum.splits)
    have e: "opening_rooms (add_adjacency L fp (add_adjacency L fp s (RoomRef r) (WallRef w) info)
          (WallRef w) (RoomRef r) info) d =
        opening_rooms s d @ (if fst d = w \<and> opening_hit L fp d r then [r] else [])"
      by (simp add: add_adjacency_opening_rooms del: add_adjacency.simps)
    from Cons.IH[OF step dis] show ?thesis
      unfolding e using True notin by auto
  next
    case False
    then have step: "find_adjacencies L fp s (RoomRef r) (map WallRef ws) = Inr s'"
      using Cons.prems(1)
      by (auto simp: records_adjacency_def Let_def split: if_splits sum.splits)
    from Cons.IH[OF step dis] show ?thesis
      using False notin by auto
  qed
qed

lemma find_adjacencies_other_opening_rooms:
  "find_adjacencies L fp s (RoomRef r) others = Inr s' \<Longrightarrow>
   \<forall>other \<in> set others. \<forall>w. other \<noteq> WallRef w \<Longrightarrow>
   opening_rooms s' = opening_rooms s"
proof (induction others arbitrary: s)
  case Nil
  then show ?case by simp
next
  case (Cons other others)
  have no: "opening_rooms (add_adjacency L fp (add_adjacency L fp s (RoomRef r) other info) other (RoomRef r) info)
      = opening_rooms s" for info
    using Cons.prems(2)
    by (cases other) (auto simp: add_adjacency_opening_rooms fun_eq_iff simp del: add_adjacency.simps)
  from Cons.prems(1) consider
      info where "find_adjacencies L fp
        (add_adjacency L fp (add_adjacency L fp s (RoomRef r) other info) other (RoomRef r) info)
        (RoomRef r) others = Inr s'"
    | "find_adjacencies L fp s (RoomRef r) others = Inr s'"
    by (auto simp: Let_def split: if_splits sum.splits)
  then show ?case
  proof cases
    case 1
    from Cons.IH[OF 1] Cons.prems(2) no show ?thesis by simp
  next
    case 2
    from Cons.IH[OF 2] Cons.prems(2) show ?thesis by simp
  qed
qed

lemma rooms_loop_opening_rooms:
  "rooms_loop L fp s rs = Inr s' \<Longrightarrow>
   opening_rooms s' d =
     opening_rooms s d @
       filter (\<lambda>r. fst d < length (wall_polygons fp) \<and>
           records_adjacency L (room_polygons fp ! r) (wall_polygons fp ! fst d) \<and>
           opening_hit L fp d r) rs"
proof (induction rs arbitrary: s)
  case Nil
  then show ?case by simp
next
  case (Cons r rs)
  from Cons.prems obtain s1 s2 s3 where
    a: "find_adjacencies L fp s (RoomRef r) (map WallRef [0..<length (wall_polygons fp)]) = Inr s1"
    and b: "find_adjacencies L fp s1 (RoomRef r) (map RailingRef [0..<length (railing_polygons fp)]) = Inr s2"
    and c: "find_adjacencies L fp s2 (RoomRef r) (map RoomRef [r + 1..<length (room_polygons fp)]) = Inr s3"
    and d: "rooms_loop L fp s3 rs = Inr s'"
    by (auto split: sum.splits)
  have 1: "opening_rooms s1 d = opening_rooms s d @
       (if fst d < length (wall_polygons fp) \<and>
           records_adjacency L (room_polygons fp ! r) (wall_polygons fp ! fst d) \<and>
           opening_hit L fp d r
        then [r] else [])"
    using find_adjacencies_walls_opening_rooms[OF a, where d = d] by simp
  have 2: "opening_rooms s2 = opening_rooms s1"
    using b by (rule find_adjacencies_other_opening_rooms) auto
  have 3: "opening_rooms s3 = opening_rooms s2"
    using c by (rule find_adjacencies_other_opening_rooms) auto
  from Cons.IH[OF d] 1 2 3 show ?case by simp
qed


lemma adjacency_pass_opening_rooms:
  assumes "adjacency_pass L fp = Inr s"
  shows "opening_rooms s d =
     filter (\<lambda>r. fst d < length (wall_polygons fp) \<and>
           records_adjacency L (room_polygons fp ! r) (wall_polygons fp ! fst d) \<and>
           opening_hit L fp d r) [0..<length (room_polygons fp)]"
  using rooms_loop_opening_rooms[OF assms[unfolded adjacency_pass_def], of d]
  by (simp add: initial_state_def)

lemma adjacency_pass_doors_linked:
  assumes "adjacency_pass L fp = Inr s"
  shows "doors_linked fp s"
proof -
  have "doors_linked fp initial_state" by (simp add: doors_linked_def initial_state_def)
  then show ?thesis using assms unfolding adjacency_pass_def by (rule rooms_loop_doors_linked)
qed

text \<open>The two example floors.\<close>

lemmas floor_defs = between_floor_def between_library_def through_floor_def through_library_def
  plain_library_def rect_def rect_ring_def adjacency_pass_def initial_state_def
  PlanObject_add_adjacency_def AdjacencyList_add_def check_adjacencies_def
  opening_add_adjacency_def is_close_def polygon_edges_def lines_are_close_def geom_index_def
  CLOSE_EDGE_TOLERANCE_def records_adjacency_def Let_def

text \<open>
  Claim C2. After the adjacency pass, for all objects \<open>A\<close> and \<open>B\<close>, the table of \<open>A\<close>
  has facts for \<open>B\<close> exactly when the table of \<open>B\<close> has facts for \<open>A\<close>, and the two lists
  of facts (shared geometry, or \<^verbatim>\<open>None\<close> for "close") are equal.
\<close>

theorem adjacency_symmetric:
  assumes "adjacency_pass L fp = Inr s"
  shows "adjacencies s A B = adjacencies s B A \<and>
         (B \<in> dom (adjacencies s A)) = (A \<in> dom (adjacencies s B))"
proof -
  have "symmetric s"
    using initial_symmetric assms unfolding adjacency_pass_def by (rule rooms_loop_symmetric)
  then have "adjacencies s A B = adjacencies s B A" by (simp add: symmetric_def)
  then show ?thesis by (auto simp: dom_def)
qed

theorem adjacency_symmetric_witness:
  "map_sum id (\<lambda>s. (adjacencies s (RoomRef 0) (WallRef 0), adjacencies s (WallRef 0) (RoomRef 0),
                     adjacencies s (RoomRef 0) (RoomRef 1), adjacencies s (RoomRef 1) (RoomRef 0)))
     (adjacency_pass between_library between_floor) =
   Inr (Some [Some (LineString [(0, 10), (10, 10)])], Some [Some (LineString [(0, 10), (10, 10)])],
        None, None)"
proof -
  obtain s where s: "adjacency_pass between_library between_floor = Inr s"
    by (simp add: floor_defs)
  have a: "adjacencies s (RoomRef 0) (WallRef 0) = Some [Some (LineString [(0, 10), (10, 10)])]"
    using s by (auto simp: floor_defs)
  have b: "adjacencies s (RoomRef 1) (RoomRef 0) = None"
    using s by (auto simp: floor_defs)
  from adjacency_symmetric[OF s, of "RoomRef 0" "WallRef 0"] adjacency_symmetric[OF s, of "RoomRef 0" "RoomRef 1"]
  show ?thesis using s a b by simp
qed

text \<open>
  Claim C8, amended. For a door whose polygon is nearer than the tolerance to exactly two
  room polygons, and whose wall the pass records as adjacent to both rooms, the room
  list of the door after the pass is these two rooms, in floor order, and the door set of
  each of them contains the door.
\<close>

theorem door_between_adjacent_rooms:
  assumes "adjacency_pass L fp = Inr s"
    and "w < length (wall_polygons fp)" "k < length (wall_openings fp ! w)"
    and "wall_openings fp ! w ! k = (Door, door_polygon)"
    and "filter (\<lambda>r. distance L door_polygon (room_polygons fp ! r) < CLOSE_EDGE_TOLERANCE)
           [0..<length (room_polygons fp)] = [r1, r2]"
    and "records_adjacency L (room_polygons fp ! r1) (wall_polygons fp ! w)"
    and "records_adjacency L (room_polygons fp ! r2) (wall_polygons fp ! w)"
  shows "opening_rooms s (w, k) = [r1, r2] \<and> length (opening_rooms s (w, k)) = 2 \<and>
         (w, k) \<in> room_doors s r1 \<and> (w, k) \<in> room_doors s r2"
proof -
  let ?D = "\<lambda>r. distance L door_polygon (room_polygons fp ! r) < CLOSE_EDGE_TOLERANCE"
  let ?A = "\<lambda>r. records_adjacency L (room_polygons fp ! r) (wall_polygons fp ! w)"
  have "opening_rooms s (w, k) = filter (\<lambda>r. ?D r \<and> ?A r) [0..<length (room_polygons fp)]"
    unfolding adjacency_pass_opening_rooms[OF assms(1)] opening_hit_def
    using assms(2,3,4) by (auto intro: filter_cong)
  also have "\<dots> = filter ?A (filter ?D [0..<length (room_polygons fp)])"
    by simp
  also have "\<dots> = [r1, r2]"
    unfolding assms(5) using assms(6,7) by simp
  finally have rooms: "opening_rooms s (w, k) = [r1, r2]" .
  have "doors_linked fp s" using assms(1) by (rule adjacency_pass_doors_linked)
  then have "\<forall>r \<in> set (opening_rooms s (w, k)). (w, k) \<in> room_doors s r"
    using assms(3,4) by (auto simp: doors_linked_def)
  with rooms show ?thesis by simp
qed

theorem door_between_adjacent_rooms_witness:
  "map_sum id (\<lambda>s. (opening_rooms s (0, 0), (0, 0) \<in> room_doors s 0, (0, 0) \<in> room_doors s 1))
     (adjacency_pass between_library between_floor) = Inr ([0, 1], True, True)"
proof -
  obtain s where s: "adjacency_pass between_library between_floor = Inr s"
    by (simp add: floor_defs)
  have "opening_rooms s (0, 0) = [0, 1] \<and> length (opening_rooms s (0, 0)) = 2 \<and>
         (0, 0) \<in> room_doors s 0 \<and> (0, 0) \<in> room_doors s 1"
    by (rule door_between_adjacent_rooms[OF s, where door_polygon = "rect 4 10 6 12"])
       (simp_all add: floor_defs)
  then show ?thesis using s by simp
qed

text \<open>
  Claim C8 as stated fails: the door touches both rooms, but the wall that runs through
  room 0 is not recorded as adjacent to it, so the door is never checked against room 0;
  its room list has length 1 and the door set of room 0 is empty.
\<close>

theorem door_through_room_counterexample:
  "distance through_library (rect 4 10 6 15) (rect 0 0 10 10) < CLOSE_EDGE_TOLERANCE \<and>
   distance through_library (rect 4 10 6 15) (rect 0 15 10 25) < CLOSE_EDGE_TOLERANCE \<and>
   \<not> records_adjacency through_library (rect 0 0 10 10) (rect 4 (-5) 6 15) \<and>
   records_adjacency through_library (rect 0 15 10 25) (rect 4 (-5) 6 15) \<and>
   map_sum id (\<lambda>s. (opening_rooms s (0, 0), room_doors s 0, room_doors s 1))
     (adjacency_pass through_library through_floor) = Inr ([1], {}, {(0, 0)}) \<and>
   length [1 :: nat] \<noteq> 2"
  by (simp add: floor_defs)

end
